theory Spec2Isabelle
  imports Complex_Main "HOL-Library.Monad_Syntax"
begin

text \<open>
  A model of cycle\_feedhold.cpp, the feedhold processing of the g2core canonical machine:
  the operation runner, the feedhold actions, the requests and the sequencing callback, as
  functions on the globals of the file. The commented-out parts of the file are not modelled.
\<close>

section \<open>Operations and actions (cycle\_feedhold.cpp, lines 58--148)\<close>

text \<open>
  The parameters of an action are C \<open>float\<close>s. The file only stores, copies and
  zero-fills them; no arithmetic is performed on them here, so they are carried as \<open>real\<close>.
\<close>

type_synonym float = real

text \<open>
  \<open>stat_t\<close>: the status codes this file names, and \<open>STAT_OTHER\<close> for every other code
  an action may return.
\<close>

datatype stat_t =
    STAT_OK
  | STAT_EAGAIN
  | STAT_NOOP
  | STAT_COMMAND_NOT_ACCEPTED
  | STAT_INPUT_EXCEEDS_MAX_LENGTH
  | STAT_OTHER nat

definition PARAM_MAX :: nat where
  "PARAM_MAX = 4"

definition ACTION_MAX :: nat where
  "ACTION_MAX = 12"

text \<open>
  \<open>struct cmAction\<close>. A \<open>cmAction *\<close> always points into the array \<open>action\<close> of the
  runner or is \<open>NULL\<close>: it is an index into that array, or \<open>None\<close>. The function pointer
  \<open>func\<close> is \<open>None\<close> when it is \<open>NULL\<close>. The type \<open>'f\<close> is the type of action functions.
\<close>

record 'f cmAction =
  number :: nat
  nx :: "nat option"
  func :: "'f option"
  param :: "float list"

text \<open>\<open>struct cmOperation\<close>, the operation runner object.\<close>

record 'f cmOperation =
  action :: "'f cmAction list"
  add :: "nat option"
  run :: "nat option"
  in_operation :: bool

text \<open>\<open>cmAction::reset\<close>: clears the function pointer, and nothing else.\<close>

definition cmAction_reset :: "'f cmAction \<Rightarrow> 'f cmAction" where
  "cmAction_reset a = a\<lparr>func := None\<rparr>"

text \<open>
  \<open>cmOperation::reset\<close>: the loop over the \<open>ACTION_MAX\<close> slots, the \<open>NULL\<close> link of the
  last slot, and the two cursors. The parameters of the slots are left as they are.
\<close>

definition cmOperation_reset :: "'f cmOperation \<Rightarrow> 'f cmOperation" where
  "cmOperation_reset opr =
     (let linked = map (\<lambda>i. (cmAction_reset (action opr ! i))\<lparr>number := i, nx := Some (i + 1)\<rparr>)
                       [0..<ACTION_MAX];
          acts = linked[ACTION_MAX - 1 := (linked ! (ACTION_MAX - 1))\<lparr>nx := None\<rparr>]
      in opr\<lparr>action := acts, add := Some 0, run := Some 0, in_operation := False\<rparr>)"

text \<open>
  \<open>cmOperation::add_action\<close>. The caller's \<open>float *param\<close> is \<open>None\<close> when it is \<open>NULL\<close>;
  otherwise its first \<open>PARAM_MAX\<close> elements are copied into the slot.
\<close>

definition add_action ::
  "'f \<Rightarrow> float list option \<Rightarrow> 'f cmOperation \<Rightarrow> stat_t \<times> 'f cmOperation" where
  "add_action action_exec prm opr =
     (if in_operation opr then (STAT_COMMAND_NOT_ACCEPTED, opr)
      else case add opr of
        None \<Rightarrow> (STAT_INPUT_EXCEEDS_MAX_LENGTH, opr)
      | Some i \<Rightarrow>
          (let a = (action opr ! i)\<lparr>func := Some action_exec\<rparr>;
               a' = (case prm of
                       None \<Rightarrow> a
                     | Some p \<Rightarrow> a\<lparr>param := map (\<lambda>k. p ! k) [0..<PARAM_MAX]\<rparr>)
           in (STAT_OK, opr\<lparr>action := (action opr)[i := a'], add := nx a'\<rparr>)))"

text \<open>
  The \<open>while\<close> loop of \<open>cmOperation::run_operation\<close>. The action functions work on the
  global state of the firmware, of type \<open>'w\<close> here; \<open>call f p w\<close> is the call \<open>f(p)\<close> in
  state \<open>w\<close>, with its status and the state it leaves. The result \<open>None\<close> means that
  \<open>run_operation\<close> does not return a status: \<open>run\<close> is \<open>NULL\<close> where \<open>run->func\<close> is read
  (undefined behaviour), or the links form a cycle and the loop never ends.
\<close>

partial_function (option) run_loop ::
  "('f \<Rightarrow> float list \<Rightarrow> 'w \<Rightarrow> stat_t \<times> 'w) \<Rightarrow> 'f cmOperation \<Rightarrow> 'w
     \<Rightarrow> (stat_t \<times> 'f cmOperation \<times> 'w) option" where
  "run_loop call opr w =
     (case run opr of
        None \<Rightarrow> None
      | Some i \<Rightarrow>
          (case func (action opr ! i) of
             None \<Rightarrow> None
           | Some f \<Rightarrow>
               (case call f (param (action opr ! i)) w of
                  (status, w') \<Rightarrow>
                    if status = STAT_OK then
                      (let opr' = opr\<lparr>run := nx (action opr ! i)\<rparr>
                       in case run opr' of
                            None \<Rightarrow> None
                          | Some j \<Rightarrow>
                              if func (action opr' ! j) = None
                              then Some (STAT_OK, cmOperation_reset opr', w')
                              else run_loop call opr' w')
                    else if status = STAT_EAGAIN then Some (STAT_EAGAIN, opr, w')
                    else Some (status, cmOperation_reset opr, w'))))"

declare run_loop.simps [code]

text \<open>\<open>cmOperation::run_operation\<close>.\<close>

definition run_operation ::
  "('f \<Rightarrow> float list \<Rightarrow> 'w \<Rightarrow> stat_t \<times> 'w) \<Rightarrow> 'f cmOperation \<Rightarrow> 'w
     \<Rightarrow> (stat_t \<times> 'f cmOperation \<times> 'w) option" where
  "run_operation call opr w =
     (case run opr of
        None \<Rightarrow> None
      | Some i \<Rightarrow>
          if func (action opr ! i) = None then Some (STAT_NOOP, opr, w)
          else run_loop call (opr\<lparr>in_operation := True\<rparr>) w)"

text \<open>
  The runner object \<open>op\<close> is a global: zero-initialised storage, then \<open>cm_operation_init\<close>
  calls \<open>reset\<close>.
\<close>

definition op_zero :: "'f cmOperation" where
  "op_zero =
     \<lparr>action = replicate ACTION_MAX
                 \<lparr>number = 0, nx = None, func = None, param = replicate PARAM_MAX 0\<rparr>,
      add = None, run = None, in_operation = False\<rparr>"

definition cm_operation_init :: "'f cmOperation" where
  "cm_operation_init = cmOperation_reset op_zero"


section \<open>The machine contexts, planners and runtimes\<close>

text \<open>
  Modelled from the spec: the enumerations are declared in canonical\_machine.h and the
  headers of the spindle, coolant and report modules, which are not part of this file. Each
  datatype has the enumerators this file names (the hold states are those of the state
  machine: off, requested, sync, action start, pending, done, hold, exit pending, exit done).
  \<open>CYCLE_OFF\<close>, \<open>MOTION_STOP\<close>, \<open>ABSOLUTE_DISTANCE_MODE\<close> and the constructors
  \<open>MOTION_MODE_OTHER\<close> and \<open>ABSOLUTE_OVERRIDE_OTHER\<close> stand for the values the active
  code does not name.
\<close>

datatype cmFeedholdState =
    FEEDHOLD_OFF
  | FEEDHOLD_REQUESTED
  | FEEDHOLD_SYNC
  | FEEDHOLD_HOLD_ACTION_START
  | FEEDHOLD_HOLD_PENDING
  | FEEDHOLD_HOLD_DONE
  | FEEDHOLD_HOLD
  | FEEDHOLD_HOLD_EXIT_PENDING
  | FEEDHOLD_HOLD_EXIT_DONE

datatype cmFeedholdType = FEEDHOLD_TYPE_ACTIONS | FEEDHOLD_TYPE_NO_ACTIONS | FEEDHOLD_TYPE_SYNC

datatype cmFeedholdFinal =
    FEEDHOLD_FINAL_CYCLE
  | FEEDHOLD_FINAL_STOP
  | FEEDHOLD_FINAL_END
  | FEEDHOLD_FINAL_ALARM
  | FEEDHOLD_FINAL_SHUTDOWN
  | FEEDHOLD_FINAL_INTERLOCK

datatype cmFlushState = FLUSH_OFF | FLUSH_REQUESTED | FLUSH_WAS_RUN

datatype cmCycleState = CYCLE_OFF | CYCLE_START_REQUESTED

datatype cmMotionState = MOTION_STOP | MOTION_RUN

datatype cmMotionMode = MOTION_MODE_CANCEL_MOTION_MODE | MOTION_MODE_OTHER nat

datatype cmAbsoluteOverride = ABSOLUTE_OVERRIDE_OFF | ABSOLUTE_OVERRIDE_OTHER nat

datatype cmDistanceMode = ABSOLUTE_DISTANCE_MODE | INCREMENTAL_DISTANCE_MODE

datatype cmMotionProfile = PROFILE_NORMAL

datatype spControl = SPINDLE_PAUSE | SPINDLE_RESUME

datatype coControl = COOLANT_PAUSE | COOLANT_RESUME

datatype coSelect = COOLANT_BOTH

datatype srRequest = SR_REQUEST_IMMEDIATE

text \<open>
  The objects the file points to: the two canonical machines \<open>cm1\<close>, \<open>cm2\<close>, the two
  planners \<open>mp1\<close>, \<open>mp2\<close> and the two runtimes \<open>mr1\<close>, \<open>mr2\<close>. A pointer to one of them
  is its name.
\<close>

datatype cm_ptr = CM1 | CM2

datatype mp_ptr = MP1 | MP2

datatype mr_ptr = MR1 | MR2

text \<open>The two callbacks this file hands to \<open>mp_queue_command\<close>.\<close>

datatype mp_callback = Fn_feedhold_sync_to_planner | Fn_feedhold_exit_sync_to_planner

text \<open>The index of the Z axis: the third element of the six-element axis vectors (line 433).\<close>

definition AXIS_Z :: nat where
  "AXIS_Z = 2"

text \<open>
  The structures, with the fields this file reads or writes. \<open>memcpy\<close> of a whole
  structure is assignment of the whole record.
\<close>

record GCodeState =
  motion_mode :: cmMotionMode
  absolute_override :: cmAbsoluteOverride
  feed_rate :: float
  target :: "float list"
  target_comp :: "float list"
  distance_mode :: cmDistanceMode

record GCodeStateX =
  position :: "float list"
  g30_position :: "float list"

record cmMachine =
  hold_state :: cmFeedholdState
  hold_type :: cmFeedholdType
  hold_final :: cmFeedholdFinal
  flush_state :: cmFlushState
  cycle_state :: cmCycleState
  motion_state :: cmMotionState
  mp :: mp_ptr
  gm :: GCodeState
  gmx :: GCodeStateX
  return_flags :: "bool list"
  feedhold_z_lift :: float

text \<open>
  Modelled from the spec: the planner and its buffers are declared in planner.h, which is
  not part of this file. The planner keeps a queue of buffers (moves, and the commands of
  \<open>mp_queue_command\<close>); it has a runnable buffer when the queue is not empty, and
  \<open>planner_reset\<close> empties it.
\<close>

datatype mpBuf = MOVE | COMMAND mp_callback

record mpPlanner =
  position :: "float list"
  mr :: mr_ptr
  queue :: "mpBuf list"

record mpPlannerRuntime =
  position :: "float list"

text \<open>
  The calls this file makes to its collaborators (planner, canonical machine, stepper,
  spindle, coolant, reports), each with the arguments it is called with. They are recorded in
  call order in \<open>trace\<close>.
\<close>

datatype event =
    Planner_reset mp_ptr
  | Cm_set_g30_position
  | Cm_set_distance_mode cmDistanceMode
  | Cm_straight_traverse "float list" "bool list" cmMotionProfile
  | Spindle_control_sync spControl
  | Coolant_control_sync coControl coSelect
  | Mp_queue_command mp_callback
  | Sr_request_status_report srRequest
  | Cm_cycle_start
  | St_request_exec_move
  | Cm_cycle_end
  | Cm_abort_arc cm_ptr
  | Cm_reset_position_to_absolute_position cm_ptr
  | Cm_goto_g30_position "float list" "bool list"

text \<open>The globals: the objects, and the three handles \<open>cm\<close>, \<open>mp\<close>, \<open>mr\<close>.\<close>

record world =
  cm1 :: cmMachine
  cm2 :: cmMachine
  mp1 :: mpPlanner
  mp2 :: mpPlanner
  mr1 :: mpPlannerRuntime
  mr2 :: mpPlannerRuntime
  cm :: cm_ptr
  mp :: mp_ptr
  mr :: mr_ptr
  trace :: "event list"

text \<open>Reading and writing through a handle: \<open>*cm\<close>, \<open>cm->f = v\<close>, \<open>*p\<close> for a planner.\<close>

definition the_cm :: "world \<Rightarrow> cmMachine" where
  "the_cm w = (case cm w of CM1 \<Rightarrow> cm1 w | CM2 \<Rightarrow> cm2 w)"

definition cm_assign :: "(cmMachine \<Rightarrow> cmMachine) \<Rightarrow> world \<Rightarrow> world" where
  "cm_assign f w = (case cm w of CM1 \<Rightarrow> w\<lparr>cm1 := f (cm1 w)\<rparr> | CM2 \<Rightarrow> w\<lparr>cm2 := f (cm2 w)\<rparr>)"

definition the_machine :: "cm_ptr \<Rightarrow> world \<Rightarrow> cmMachine" where
  "the_machine c w = (case c of CM1 \<Rightarrow> cm1 w | CM2 \<Rightarrow> cm2 w)"

definition machine_assign :: "cm_ptr \<Rightarrow> (cmMachine \<Rightarrow> cmMachine) \<Rightarrow> world \<Rightarrow> world" where
  "machine_assign c f w =
     (case c of CM1 \<Rightarrow> w\<lparr>cm1 := f (cm1 w)\<rparr> | CM2 \<Rightarrow> w\<lparr>cm2 := f (cm2 w)\<rparr>)"

definition the_planner :: "mp_ptr \<Rightarrow> world \<Rightarrow> mpPlanner" where
  "the_planner p w = (case p of MP1 \<Rightarrow> mp1 w | MP2 \<Rightarrow> mp2 w)"

definition planner_assign :: "mp_ptr \<Rightarrow> (mpPlanner \<Rightarrow> mpPlanner) \<Rightarrow> world \<Rightarrow> world" where
  "planner_assign p f w =
     (case p of MP1 \<Rightarrow> w\<lparr>mp1 := f (mp1 w)\<rparr> | MP2 \<Rightarrow> w\<lparr>mp2 := f (mp2 w)\<rparr>)"

definition the_runtime :: "mr_ptr \<Rightarrow> world \<Rightarrow> mpPlannerRuntime" where
  "the_runtime r w = (case r of MR1 \<Rightarrow> mr1 w | MR2 \<Rightarrow> mr2 w)"

subsection \<open>Collaborators\<close>

definition emit :: "event \<Rightarrow> world \<Rightarrow> world" where
  "emit e w = w\<lparr>trace := trace w @ [e]\<rparr>"

text \<open>
  Modelled from the spec: \<open>planner_reset\<close> (planner.cpp, not part of this file) resets the
  planner to empty.
\<close>

definition planner_reset :: "mp_ptr \<Rightarrow> world \<Rightarrow> world" where
  "planner_reset p w = emit (Planner_reset p) (planner_assign p (\<lambda>pl. pl\<lparr>queue := []\<rparr>) w)"

text \<open>
  Modelled from the spec: \<open>mp_has_runnable_buffer\<close> (planner.cpp, not part of this file)
  tells whether the planner has at least one runnable buffer queued.
\<close>

definition mp_has_runnable_buffer :: "mp_ptr \<Rightarrow> world \<Rightarrow> bool" where
  "mp_has_runnable_buffer p w = (queue (the_planner p w) \<noteq> [])"

text \<open>
  Modelled from the spec: \<open>mp_queue_command\<close> (planner.cpp, not part of this file) enqueues
  a zero-length command with its callback in the active planner; the execution engine calls
  the callback when motion reaches that point of the stream.
\<close>

definition mp_queue_command :: "mp_callback \<Rightarrow> world \<Rightarrow> world" where
  "mp_queue_command cb w =
     emit (Mp_queue_command cb) (planner_assign (mp w) (\<lambda>pl. pl\<lparr>queue := queue pl @ [COMMAND cb]\<rparr>) w)"

text \<open>
  Modelled from the spec: \<open>cm_set_distance_mode\<close> (canonical\_machine.cpp, not part of this
  file) sets the distance mode of the active machine.
\<close>

definition cm_set_distance_mode :: "cmDistanceMode \<Rightarrow> world \<Rightarrow> world" where
  "cm_set_distance_mode m w =
     emit (Cm_set_distance_mode m) (cm_assign (\<lambda>c. c\<lparr>gm := (gm c)\<lparr>distance_mode := m\<rparr>\<rparr>) w)"

text \<open>
  Modelled from the spec: \<open>cm_reset_position_to_absolute_position\<close> (canonical\_machine.cpp,
  not part of this file) reconciles the recorded position of the planner of the machine it is
  given to the actual position of the runtime of that planner (lines 502--503: adjust the
  planner positions to the runtime positions).
\<close>

definition cm_reset_position_to_absolute_position :: "cm_ptr \<Rightarrow> world \<Rightarrow> world" where
  "cm_reset_position_to_absolute_position c w =
     (let p = cmMachine.mp (the_machine c w);
          r = the_runtime (mpPlanner.mr (the_planner p w)) w
      in emit (Cm_reset_position_to_absolute_position c)
           (planner_assign p (\<lambda>pl. pl\<lparr>mpPlanner.position := mpPlannerRuntime.position r\<rparr>) w))"

text \<open>
  The macros \<open>fp_NOT_ZERO\<close> and \<open>_to_inches\<close> come from headers that are not part of this
  file; they are parameters. \<open>_to_inches\<close> reads the active machine.
\<close>

record util =
  fp_NOT_ZERO :: "float \<Rightarrow> bool"
  to_inches :: "cmMachine \<Rightarrow> float \<Rightarrow> float"


text \<open>
  The other collaborators (canonical\_machine.cpp, stepper.cpp, spindle.cpp, coolant.cpp,
  report.cpp, plan\_arc.cpp) are not part of this file, and the spec gives them no effect
  on the fields above: their calls are recorded, with their arguments.
\<close>

definition cm_set_g30_position :: "world \<Rightarrow> world" where
  "cm_set_g30_position w = emit Cm_set_g30_position w"

definition cm_straight_traverse ::
  "float list \<Rightarrow> bool list \<Rightarrow> cmMotionProfile \<Rightarrow> world \<Rightarrow> world" where
  "cm_straight_traverse tgt flags profile w = emit (Cm_straight_traverse tgt flags profile) w"

definition spindle_control_sync :: "spControl \<Rightarrow> world \<Rightarrow> world" where
  "spindle_control_sync c w = emit (Spindle_control_sync c) w"

definition coolant_control_sync :: "coControl \<Rightarrow> coSelect \<Rightarrow> world \<Rightarrow> world" where
  "coolant_control_sync c sel w = emit (Coolant_control_sync c sel) w"

definition sr_request_status_report :: "srRequest \<Rightarrow> world \<Rightarrow> world" where
  "sr_request_status_report r w = emit (Sr_request_status_report r) w"

definition cm_cycle_start :: "world \<Rightarrow> world" where
  "cm_cycle_start w = emit Cm_cycle_start w"

definition st_request_exec_move :: "world \<Rightarrow> world" where
  "st_request_exec_move w = emit St_request_exec_move w"

definition cm_cycle_end :: "world \<Rightarrow> world" where
  "cm_cycle_end w = emit Cm_cycle_end w"

definition cm_abort_arc :: "cm_ptr \<Rightarrow> world \<Rightarrow> world" where
  "cm_abort_arc c w = emit (Cm_abort_arc c) w"

definition cm_goto_g30_position :: "float list \<Rightarrow> bool list \<Rightarrow> world \<Rightarrow> world" where
  "cm_goto_g30_position tgt flags w = emit (Cm_goto_g30_position tgt flags) w"

section \<open>Feedhold actions (lines 353--533)\<close>

text \<open>
  The static functions of the file are named with a leading underscore, which an Isabelle
  name cannot have: \<open>_feedhold_with_actions\<close> is \<open>feedhold_with_actions\<close> here, and so on.
  Every action takes the parameter buffer and the globals, and returns its status and the
  globals it leaves.
\<close>

text \<open>\<open>_feedhold_sync_to_planner\<close> (lines 353--357); its two arguments are unused.\<close>

definition feedhold_sync_to_planner :: "world \<Rightarrow> world" where
  "feedhold_sync_to_planner w =
     sr_request_status_report SR_REQUEST_IMMEDIATE
       (w\<lparr>cm1 := (cm1 w)\<lparr>hold_state := FEEDHOLD_HOLD_DONE\<rparr>\<rparr>)"

text \<open>\<open>_feedhold_exit_sync_to_planner\<close> (lines 462--466).\<close>

definition feedhold_exit_sync_to_planner :: "world \<Rightarrow> world" where
  "feedhold_exit_sync_to_planner w =
     sr_request_status_report SR_REQUEST_IMMEDIATE
       (w\<lparr>cm1 := (cm1 w)\<lparr>hold_state := FEEDHOLD_HOLD_EXIT_DONE\<rparr>\<rparr>)"

definition run_callback :: "mp_callback \<Rightarrow> world \<Rightarrow> world" where
  "run_callback cb w =
     (case cb of
        Fn_feedhold_sync_to_planner \<Rightarrow> feedhold_sync_to_planner w
      | Fn_feedhold_exit_sync_to_planner \<Rightarrow> feedhold_exit_sync_to_planner w)"

definition feedhold_with_no_actions :: "float list \<Rightarrow> world \<Rightarrow> stat_t \<times> world" where
  "feedhold_with_no_actions prm w = (STAT_OK, w)"

definition feedhold_with_sync :: "float list \<Rightarrow> world \<Rightarrow> stat_t \<times> world" where
  "feedhold_with_sync prm w = (STAT_OK, w)"

definition program_stop :: "float list \<Rightarrow> world \<Rightarrow> stat_t \<times> world" where
  "program_stop prm w = (STAT_OK, w)"

definition program_end :: "float list \<Rightarrow> world \<Rightarrow> stat_t \<times> world" where
  "program_end prm w = (STAT_OK, w)"

definition alarm :: "float list \<Rightarrow> world \<Rightarrow> stat_t \<times> world" where
  "alarm prm w = (STAT_OK, w)"

definition shutdown :: "float list \<Rightarrow> world \<Rightarrow> stat_t \<times> world" where
  "shutdown prm w = (STAT_OK, w)"

definition interlock :: "float list \<Rightarrow> world \<Rightarrow> stat_t \<times> world" where
  "interlock prm w = (STAT_OK, w)"

text \<open>
  Lines 401--420 of \<open>_feedhold_with_actions\<close>: the primary machine is copied to the
  secondary, the secondary planner is bound and reset, and the copy is prepared.
\<close>

definition copy_primary_to_secondary :: "world \<Rightarrow> world" where
  "copy_primary_to_secondary w =
     (let w1 = w\<lparr>cm2 := cm1 w\<rparr>;
          w2 = w1\<lparr>cm2 := (cm2 w1)\<lparr>cmMachine.mp := MP2\<rparr>\<rparr>;
          w3 = planner_reset (cmMachine.mp (cm2 w2)) w2;
          w4 = w3\<lparr>cm2 := (cm2 w3)\<lparr>hold_state := FEEDHOLD_OFF\<rparr>\<rparr>;
          w5 = w4\<lparr>cm2 := (cm2 w4)\<lparr>gm := (gm (cm2 w4))\<lparr>motion_mode := MOTION_MODE_CANCEL_MOTION_MODE\<rparr>\<rparr>\<rparr>;
          w6 = w5\<lparr>cm2 := (cm2 w5)\<lparr>gm := (gm (cm2 w5))\<lparr>absolute_override := ABSOLUTE_OVERRIDE_OFF\<rparr>\<rparr>\<rparr>;
          w7 = w6\<lparr>cm2 := (cm2 w6)\<lparr>flush_state := FLUSH_OFF\<rparr>\<rparr>;
          w8 = w7\<lparr>cm2 := (cm2 w7)\<lparr>gm := (gm (cm2 w7))\<lparr>feed_rate := 0\<rparr>\<rparr>\<rparr>;
          w9 = w8\<lparr>cm2 := (cm2 w8)\<lparr>gm := (gm (cm2 w8))\<lparr>target := map (\<lambda>_. 0) (target (gm (cm2 w8)))\<rparr>\<rparr>\<rparr>;
          w10 = w9\<lparr>cm2 := (cm2 w9)\<lparr>return_flags := map (\<lambda>_. False) (return_flags (cm2 w9))\<rparr>\<rparr>;
          w11 = w10\<lparr>cm2 := (cm2 w10)\<lparr>gm := (gm (cm2 w10))\<lparr>target_comp := target_comp (gm (cm1 w10))\<rparr>\<rparr>\<rparr>;
          w12 = w11\<lparr>cm2 := (cm2 w11)\<lparr>gmx := (gmx (cm2 w11))\<lparr>GCodeStateX.position := mpPlannerRuntime.position (mr1 w11)\<rparr>\<rparr>\<rparr>;
          w13 = w12\<lparr>mp2 := (mp2 w12)\<lparr>mpPlanner.position := mpPlannerRuntime.position (mr1 w12)\<rparr>\<rparr>;
          w14 = w13\<lparr>mr2 := (mr2 w13)\<lparr>mpPlannerRuntime.position := mpPlannerRuntime.position (mr1 w13)\<rparr>\<rparr>
      in w14)"

text \<open>
  The secondary machine as lines 403--418 leave it, written as one update of the primary
  machine (line 417 copies \<open>target_comp\<close>, which the copy of line 403 already holds).
\<close>

definition secondary_copy :: "world \<Rightarrow> cmMachine" where
  "secondary_copy w =
     (cm1 w)\<lparr>cmMachine.mp := MP2, hold_state := FEEDHOLD_OFF, flush_state := FLUSH_OFF,
             return_flags := map (\<lambda>_. False) (return_flags (cm1 w)),
             gm := (gm (cm1 w))\<lparr>motion_mode := MOTION_MODE_CANCEL_MOTION_MODE,
                    absolute_override := ABSOLUTE_OVERRIDE_OFF, feed_rate := 0,
                    target := map (\<lambda>_. 0) (target (gm (cm1 w)))\<rparr>,
             gmx := (gmx (cm1 w))\<lparr>GCodeStateX.position := mpPlannerRuntime.position (mr1 w)\<rparr>\<rparr>"

text \<open>Lines 422--425: the globals \<open>cm\<close>, \<open>mp\<close>, \<open>mr\<close> are reassigned to the secondary.\<close>

definition assign_globals_to_secondary :: "world \<Rightarrow> world" where
  "assign_globals_to_secondary w =
     (let w1 = w\<lparr>cm := CM2\<rparr>;
          w2 = w1\<lparr>mp := cmMachine.mp (the_cm w1)\<rparr>;
          w3 = w2\<lparr>mr := mpPlanner.mr (the_planner (mp w2) w2)\<rparr>
      in w3)"

text \<open>Lines 430--437: the optional Z lift.\<close>

definition feedhold_z_lift_move :: "util \<Rightarrow> world \<Rightarrow> world" where
  "feedhold_z_lift_move u w =
     (if fp_NOT_ZERO u (feedhold_z_lift (the_cm w)) then
        (let w1 = cm_set_distance_mode INCREMENTAL_DISTANCE_MODE w;
             flags = [False, False, True, False, False, False];
             tgt = [0, 0, to_inches u (the_cm w1) (feedhold_z_lift (the_cm w1)), 0, 0, 0];
             w2 = cm_straight_traverse tgt flags PROFILE_NORMAL w1
         in cm_set_distance_mode (distance_mode (gm (cm1 w2))) w2)
      else w)"

text \<open>\<open>_feedhold_with_actions\<close> (lines 395--455).\<close>

definition feedhold_with_actions :: "util \<Rightarrow> float list \<Rightarrow> world \<Rightarrow> stat_t \<times> world" where
  "feedhold_with_actions u prm w =
     (if hold_state (cm1 w) = FEEDHOLD_HOLD_ACTION_START then
        (let w1 = cm_assign (\<lambda>c. c\<lparr>hold_state := FEEDHOLD_HOLD_PENDING\<rparr>) w;
             w2 = copy_primary_to_secondary w1;
             w3 = assign_globals_to_secondary w2;
             w4 = cm_set_g30_position w3;
             w5 = feedhold_z_lift_move u w4;
             w6 = spindle_control_sync SPINDLE_PAUSE w5;
             w7 = coolant_control_sync COOLANT_PAUSE COOLANT_BOTH w6;
             w8 = mp_queue_command Fn_feedhold_sync_to_planner w7
         in (STAT_EAGAIN, w8))
      else if hold_state (cm1 w) = FEEDHOLD_HOLD_PENDING then (STAT_EAGAIN, w)
      else if hold_state (cm1 w) = FEEDHOLD_HOLD_DONE then
        (STAT_OK, w\<lparr>cm1 := (cm1 w)\<lparr>hold_state := FEEDHOLD_HOLD\<rparr>\<rparr>)
      else (STAT_EAGAIN, w))"

definition feedhold_exit_with_no_actions :: "float list \<Rightarrow> world \<Rightarrow> stat_t \<times> world" where
  "feedhold_exit_with_no_actions prm w = (STAT_OK, w)"

text \<open>\<open>_feedhold_exit_with_actions\<close> (lines 473--521).\<close>

definition feedhold_exit_with_actions :: "float list \<Rightarrow> world \<Rightarrow> stat_t \<times> world" where
  "feedhold_exit_with_actions prm w =
     (if hold_state (cm1 w) = FEEDHOLD_HOLD then
        (let w1 = coolant_control_sync COOLANT_RESUME COOLANT_BOTH w;
             w2 = spindle_control_sync SPINDLE_RESUME w1;
             w3 = w2\<lparr>cm2 := (cm2 w2)\<lparr>return_flags := (return_flags (cm2 w2))[AXIS_Z := False]\<rparr>\<rparr>;
             w4 = cm_goto_g30_position (g30_position (gmx (cm2 w3))) (return_flags (cm2 w3)) w3;
             w5 = mp_queue_command Fn_feedhold_exit_sync_to_planner w4;
             w6 = w5\<lparr>cm1 := (cm1 w5)\<lparr>hold_state := FEEDHOLD_HOLD_EXIT_PENDING\<rparr>\<rparr>
         in (STAT_EAGAIN, w6))
      else if hold_state (cm1 w) = FEEDHOLD_HOLD_EXIT_PENDING then (STAT_EAGAIN, w)
      else if hold_state (cm1 w) = FEEDHOLD_HOLD_EXIT_DONE then
        (let w1 = w\<lparr>cm := CM1\<rparr>;
             w2 = w1\<lparr>mp := cmMachine.mp (the_cm w1)\<rparr>;
             w3 = w2\<lparr>mr := mpPlanner.mr (the_planner (mp w2) w2)\<rparr>;
             w4 = (if flush_state (cm1 w3) = FLUSH_WAS_RUN then
                     (let v = cm_reset_position_to_absolute_position (cm w3) w3
                      in v\<lparr>cm1 := (cm1 v)\<lparr>flush_state := FLUSH_OFF\<rparr>\<rparr>)
                   else w3)
         in (STAT_OK, w4))
      else (STAT_EAGAIN, w))"

text \<open>\<open>_cycle_exit\<close> (lines 523--533).\<close>

definition cycle_exit :: "float list \<Rightarrow> world \<Rightarrow> stat_t \<times> world" where
  "cycle_exit prm w =
     (let w1 = (if mp_has_runnable_buffer MP1 w
                then st_request_exec_move (cm_cycle_start w)
                else cm_cycle_end w)
      in (STAT_OK, w1\<lparr>cm1 := (cm1 w1)\<lparr>hold_state := FEEDHOLD_OFF\<rparr>\<rparr>))"

text \<open>The action functions (\<open>action_exec_t\<close>) that the file queues, and their call.\<close>

datatype action_exec_t =
    Fn_feedhold_with_actions
  | Fn_feedhold_with_no_actions
  | Fn_feedhold_with_sync
  | Fn_feedhold_exit_with_actions
  | Fn_feedhold_exit_with_no_actions
  | Fn_cycle_exit
  | Fn_program_stop
  | Fn_program_end
  | Fn_alarm
  | Fn_shutdown
  | Fn_interlock

definition call_action :: "util \<Rightarrow> action_exec_t \<Rightarrow> float list \<Rightarrow> world \<Rightarrow> stat_t \<times> world" where
  "call_action u f prm w =
     (case f of
        Fn_feedhold_with_actions \<Rightarrow> feedhold_with_actions u prm w
      | Fn_feedhold_with_no_actions \<Rightarrow> feedhold_with_no_actions prm w
      | Fn_feedhold_with_sync \<Rightarrow> feedhold_with_sync prm w
      | Fn_feedhold_exit_with_actions \<Rightarrow> feedhold_exit_with_actions prm w
      | Fn_feedhold_exit_with_no_actions \<Rightarrow> feedhold_exit_with_no_actions prm w
      | Fn_cycle_exit \<Rightarrow> cycle_exit prm w
      | Fn_program_stop \<Rightarrow> program_stop prm w
      | Fn_program_end \<Rightarrow> program_end prm w
      | Fn_alarm \<Rightarrow> alarm prm w
      | Fn_shutdown \<Rightarrow> shutdown prm w
      | Fn_interlock \<Rightarrow> interlock prm w)"

section \<open>Requests and the sequencing callback (lines 191--351, 581--596)\<close>

text \<open>The whole state: the runner object \<open>op\<close> and the other globals.\<close>

record firmware =
  op :: "action_exec_t cmOperation"
  glob :: world

text \<open>\<open>op.add_action(f, nullptr)\<close> as a statement: the status is dropped.\<close>

definition op_add_action :: "action_exec_t \<Rightarrow> firmware \<Rightarrow> firmware" where
  "op_add_action f s = s\<lparr>op := snd (add_action f None (op s))\<rparr>"

text \<open>\<open>op.run_operation()\<close>, with its status.\<close>

definition op_run_operation :: "util \<Rightarrow> firmware \<Rightarrow> (stat_t \<times> firmware) option" where
  "op_run_operation u s =
     (case run_operation (call_action u) (op s) (glob s) of
        None \<Rightarrow> None
      | Some (status, opr', w') \<Rightarrow> Some (status, \<lparr>op = opr', glob = w'\<rparr>))"

text \<open>\<open>cm_has_hold\<close> (lines 243--246) and \<open>cm_feedhold_command_blocker\<close> (lines 256--262).\<close>

definition cm_has_hold :: "firmware \<Rightarrow> bool \<times> firmware" where
  "cm_has_hold s = (hold_state (cm1 (glob s)) \<noteq> FEEDHOLD_OFF, s)"

definition cm_feedhold_command_blocker :: "firmware \<Rightarrow> stat_t \<times> firmware" where
  "cm_feedhold_command_blocker s =
     (if hold_state (cm1 (glob s)) \<noteq> FEEDHOLD_OFF then (STAT_EAGAIN, s) else (STAT_OK, s))"

text \<open>\<open>cm_request_cycle_start\<close> (lines 274--277).\<close>

definition cm_request_cycle_start :: "firmware \<Rightarrow> firmware" where
  "cm_request_cycle_start s =
     s\<lparr>glob := cm_assign (\<lambda>c. c\<lparr>cycle_state := CYCLE_START_REQUESTED\<rparr>) (glob s)\<rparr>"

text \<open>\<open>_initiate_cycle_start\<close> (lines 279--306).\<close>

definition initiate_cycle_start :: "util \<Rightarrow> firmware \<Rightarrow> firmware option" where
  "initiate_cycle_start u s =
     (if hold_state (cm1 (glob s)) = FEEDHOLD_OFF then
        Some (s\<lparr>glob := st_request_exec_move (cm_cycle_start (glob s))\<rparr>)
      else
        (let s3 =
           (if hold_state (cm1 (glob s)) = FEEDHOLD_HOLD then
              (let s1 = (case hold_type (cm1 (glob s)) of
                           FEEDHOLD_TYPE_ACTIONS \<Rightarrow> op_add_action Fn_feedhold_exit_with_actions s
                         | FEEDHOLD_TYPE_NO_ACTIONS \<Rightarrow> op_add_action Fn_feedhold_exit_with_no_actions s
                         | FEEDHOLD_TYPE_SYNC \<Rightarrow> s);
                   s2 = (case hold_final (cm1 (glob s1)) of
                           FEEDHOLD_FINAL_CYCLE \<Rightarrow> op_add_action Fn_cycle_exit s1
                         | FEEDHOLD_FINAL_STOP \<Rightarrow> op_add_action Fn_program_stop s1
                         | FEEDHOLD_FINAL_END \<Rightarrow> op_add_action Fn_program_end s1
                         | FEEDHOLD_FINAL_ALARM \<Rightarrow> op_add_action Fn_alarm s1
                         | FEEDHOLD_FINAL_SHUTDOWN \<Rightarrow> op_add_action Fn_shutdown s1
                         | FEEDHOLD_FINAL_INTERLOCK \<Rightarrow> op_add_action Fn_interlock s1)
               in s2)
            else s)
         in map_option snd (op_run_operation u s3)))"

text \<open>\<open>_initiate_feedhold\<close> (lines 323--351).\<close>

definition initiate_feedhold :: "firmware \<Rightarrow> firmware" where
  "initiate_feedhold s =
     (if hold_state (cm1 (glob s)) = FEEDHOLD_REQUESTED \<and> motion_state (cm1 (glob s)) = MOTION_RUN
      then
        (let s1 = (case hold_type (cm1 (glob s)) of
                     FEEDHOLD_TYPE_ACTIONS \<Rightarrow> op_add_action Fn_feedhold_with_actions s
                   | FEEDHOLD_TYPE_NO_ACTIONS \<Rightarrow> op_add_action Fn_feedhold_with_no_actions s
                   | FEEDHOLD_TYPE_SYNC \<Rightarrow> op_add_action Fn_feedhold_with_sync s);
             s2 = (case hold_final (cm1 (glob s1)) of
                     FEEDHOLD_FINAL_CYCLE \<Rightarrow> s1
                   | FEEDHOLD_FINAL_STOP \<Rightarrow> op_add_action Fn_program_stop s1
                   | FEEDHOLD_FINAL_END \<Rightarrow> op_add_action Fn_program_end s1
                   | FEEDHOLD_FINAL_ALARM \<Rightarrow> op_add_action Fn_alarm s1
                   | FEEDHOLD_FINAL_SHUTDOWN \<Rightarrow> op_add_action Fn_shutdown s1
                   | FEEDHOLD_FINAL_INTERLOCK \<Rightarrow> op_add_action Fn_interlock s1)
         in s2\<lparr>glob := (glob s2)\<lparr>cm1 := (cm1 (glob s2))\<lparr>hold_state := FEEDHOLD_SYNC\<rparr>\<rparr>\<rparr>)
      else if hold_state (cm2 (glob s)) = FEEDHOLD_REQUESTED
              \<and> motion_state (cm2 (glob s)) = MOTION_RUN
      then
        (let s1 = op_add_action Fn_feedhold_with_sync s
         in s1\<lparr>glob := (glob s1)\<lparr>cm2 := (cm2 (glob s1))\<lparr>hold_state := FEEDHOLD_SYNC\<rparr>\<rparr>\<rparr>)
      else s)"

text \<open>\<open>cm_request_feedhold\<close> (lines 315--321).\<close>

definition cm_request_feedhold :: "cmFeedholdType \<Rightarrow> cmFeedholdFinal \<Rightarrow> firmware \<Rightarrow> firmware" where
  "cm_request_feedhold type final s =
     (let s1 = s\<lparr>glob := cm_assign (\<lambda>c. c\<lparr>hold_type := type\<rparr>) (glob s)\<rparr>;
          s2 = s1\<lparr>glob := cm_assign (\<lambda>c. c\<lparr>hold_final := final\<rparr>) (glob s1)\<rparr>;
          s3 = s2\<lparr>glob := cm_assign (\<lambda>c. c\<lparr>hold_state := FEEDHOLD_REQUESTED\<rparr>) (glob s2)\<rparr>
      in initiate_feedhold s3)"

text \<open>\<open>cm_request_queue_flush\<close> (lines 581--584).\<close>

definition cm_request_queue_flush :: "firmware \<Rightarrow> firmware" where
  "cm_request_queue_flush s =
     s\<lparr>glob := cm_assign (\<lambda>c. c\<lparr>flush_state := FLUSH_REQUESTED\<rparr>) (glob s)\<rparr>"

text \<open>\<open>cm_queue_flush\<close> (lines 591--596), on the machine \<open>_cm\<close> points to.\<close>

definition cm_queue_flush :: "cm_ptr \<Rightarrow> world \<Rightarrow> world" where
  "cm_queue_flush c w =
     (let w1 = cm_abort_arc c w;
          w2 = planner_reset (cmMachine.mp (the_machine c w1)) w1
      in machine_assign c (\<lambda>m. m\<lparr>flush_state := FLUSH_WAS_RUN\<rparr>) w2)"

text \<open>\<open>_initiate_queue_flush\<close> (lines 586--589).\<close>

definition initiate_queue_flush :: "firmware \<Rightarrow> firmware" where
  "initiate_queue_flush s = s\<lparr>glob := cm_queue_flush (cm (glob s)) (glob s)\<rparr>"

text \<open>\<open>cm_operation_sequencing_callback\<close> (lines 191--203): one tick of the main loop.\<close>

definition cm_operation_sequencing_callback :: "util \<Rightarrow> firmware \<Rightarrow> (stat_t \<times> firmware) option" where
  "cm_operation_sequencing_callback u s =
     (let s1 = (if hold_state (cm1 (glob s)) = FEEDHOLD_REQUESTED then initiate_feedhold s else s);
          s2 = (if flush_state (cm1 (glob s1)) = FLUSH_REQUESTED then initiate_queue_flush s1 else s1)
      in case (if cycle_state (cm1 (glob s2)) = CYCLE_START_REQUESTED
               then initiate_cycle_start u s2 else Some s2) of
           None \<Rightarrow> None
         | Some s3 \<Rightarrow> op_run_operation u s3)"


section \<open>Call sequences and example states\<close>

text \<open>
  A caller that makes a sequence of \<open>add_action\<close> calls: the statuses they return,
  oldest first, and the runner they leave.
\<close>

fun add_actions ::
  "('f \<times> float list option) list \<Rightarrow> 'f cmOperation \<Rightarrow> stat_t list \<times> 'f cmOperation" where
  "add_actions [] opr = ([], opr)"
| "add_actions (x # xs) opr =
     (case add_action (fst x) (snd x) opr of
        (st, opr') \<Rightarrow>
          (case add_actions xs opr' of
             (sts, opr'') \<Rightarrow> (st # sts, opr'')))"

text \<open>
  What the contract of \<open>run_operation\<close> asks for, on the list of queued actions (function
  and stored parameters, in enqueue order): each is called once, in order, as long as the
  calls return \<open>STAT_OK\<close>. The result is the status of the last call, the number of actions
  that completed before it, and the state the calls leave.
\<close>

fun exec_actions ::
  "('f \<Rightarrow> float list \<Rightarrow> 'w \<Rightarrow> stat_t \<times> 'w) \<Rightarrow> ('f \<times> float list) list \<Rightarrow> 'w
     \<Rightarrow> stat_t \<times> nat \<times> 'w" where
  "exec_actions call [] w = (STAT_OK, 0, w)"
| "exec_actions call (a # as) w =
     (case call (fst a) (snd a) w of
        (st, w') \<Rightarrow>
          if st = STAT_OK then
            (case exec_actions call as w' of (st', k, w'') \<Rightarrow> (st', Suc k, w''))
          else (st, 0, w'))"

text \<open>The functions and parameters in the \<open>n\<close> slots from slot \<open>r\<close> on.\<close>

definition queued :: "'f cmOperation \<Rightarrow> nat \<Rightarrow> nat \<Rightarrow> ('f \<times> float list) list" where
  "queued opr r n =
     map (\<lambda>i. (the (func (action opr ! i)), param (action opr ! i))) [r..<r + n]"

text \<open>
  The main loop: \<open>n\<close> ticks of the sequencing callback, with the statuses they return,
  oldest first.
\<close>

fun ticks :: "util \<Rightarrow> nat \<Rightarrow> firmware \<Rightarrow> (stat_t list \<times> firmware) option" where
  "ticks u 0 s = Some ([], s)"
| "ticks u (Suc n) s =
     (case cm_operation_sequencing_callback u s of
        None \<Rightarrow> None
      | Some (st, s') \<Rightarrow>
          (case ticks u n s' of
             None \<Rightarrow> None
           | Some (sts, s'') \<Rightarrow> Some (st # sts, s'')))"

text \<open>
  The shape \<open>reset\<close> gives the runner: twelve slots, each linked to the next and the last
  to \<open>NULL\<close>. An idle runner is one as \<open>reset\<close> leaves it: no slot holds a function, both
  cursors are at the first slot, no operation is running.
\<close>

definition linked :: "'f cmOperation \<Rightarrow> bool" where
  "linked opr \<longleftrightarrow>
     length (action opr) = ACTION_MAX
     \<and> (\<forall>i < ACTION_MAX. nx (action opr ! i) = (if Suc i < ACTION_MAX then Some (Suc i) else None))"

definition idle :: "'f cmOperation \<Rightarrow> bool" where
  "idle opr \<longleftrightarrow>
     linked opr \<and> (\<forall>i < ACTION_MAX. func (action opr ! i) = None)
     \<and> add opr = Some 0 \<and> run opr = Some 0 \<and> \<not> in_operation opr"

text \<open>Example values: the two macros, a primary machine in motion, and the globals.\<close>

definition u0 :: util where
  "u0 = \<lparr>fp_NOT_ZERO = (\<lambda>x. x \<noteq> 0), to_inches = (\<lambda>c x. x)\<rparr>"

definition gm0 :: GCodeState where
  "gm0 = \<lparr>motion_mode = MOTION_MODE_OTHER 1, absolute_override = ABSOLUTE_OVERRIDE_OTHER 1,
          feed_rate = 100, target = [10, 20, 30, 0, 0, 0], target_comp = [1, 2, 3, 0, 0, 0],
          distance_mode = ABSOLUTE_DISTANCE_MODE\<rparr>"

definition cm0 :: cmMachine where
  "cm0 = \<lparr>hold_state = FEEDHOLD_OFF, hold_type = FEEDHOLD_TYPE_ACTIONS,
          hold_final = FEEDHOLD_FINAL_CYCLE, flush_state = FLUSH_OFF, cycle_state = CYCLE_OFF,
          motion_state = MOTION_RUN, cmMachine.mp = MP1, gm = gm0,
          gmx = \<lparr>GCodeStateX.position = [10, 20, 30, 0, 0, 0], g30_position = [0, 0, 0, 0, 0, 0]\<rparr>,
          return_flags = [True, True, True, False, False, False], feedhold_z_lift = 5\<rparr>"

definition w0 :: world where
  "w0 = \<lparr>cm1 = cm0,
         cm2 = cm0\<lparr>cmMachine.mp := MP2, motion_state := MOTION_STOP, feedhold_z_lift := 0\<rparr>,
         mp1 = \<lparr>mpPlanner.position = [10, 20, 30, 0, 0, 0], mpPlanner.mr = MR1, queue = [MOVE]\<rparr>,
         mp2 = \<lparr>mpPlanner.position = [0, 0, 0, 0, 0, 0], mpPlanner.mr = MR2, queue = [MOVE, MOVE]\<rparr>,
         mr1 = \<lparr>mpPlannerRuntime.position = [9, 19, 29, 0, 0, 0]\<rparr>,
         mr2 = \<lparr>mpPlannerRuntime.position = [0, 0, 0, 0, 0, 0]\<rparr>,
         cm = CM1, mp = MP1, mr = MR1, trace = []\<rparr>"

definition s0 :: firmware where
  "s0 = \<lparr>op = cm_operation_init, glob = w0\<rparr>"

text \<open>The primary machine of \<open>w0\<close> with another hold state.\<close>

definition w0_hold :: "cmFeedholdState \<Rightarrow> world" where
  "w0_hold h = w0\<lparr>cm1 := cm0\<lparr>hold_state := h\<rparr>\<rparr>"

text \<open>
  A hold with actions in progress: the secondary machine is active and in motion, the
  primary holds, the runner is idle.
\<close>

definition s0_in_hold :: firmware where
  "s0_in_hold =
     \<lparr>op = cm_operation_init,
      glob = w0\<lparr>cm1 := cm0\<lparr>hold_state := FEEDHOLD_HOLD, motion_state := MOTION_STOP\<rparr>,
                cm2 := cm0\<lparr>cmMachine.mp := MP2, motion_state := MOTION_RUN\<rparr>,
                cm := CM2, mp := MP2, mr := MR2\<rparr>\<rparr>"

text \<open>A stationary machine: no motion, no hold, an idle runner.\<close>

definition s0_stopped :: firmware where
  "s0_stopped = \<lparr>op = cm_operation_init, glob = w0\<lparr>cm1 := cm0\<lparr>motion_state := MOTION_STOP\<rparr>\<rparr>\<rparr>"

text \<open>
  The hold of \<open>s0_in_hold\<close> with another final state, and the exit of a hold with actions:
  \<open>_initiate_cycle_start\<close> queues the exit action and the termination action of the final
  state and runs the operation, the planner runs the exit synchronisation command that the exit
  action has queued, and the operation is run again.
\<close>

definition s0_hold_final :: "cmFeedholdFinal \<Rightarrow> firmware" where
  "s0_hold_final f =
     s0_in_hold\<lparr>glob := (glob s0_in_hold)\<lparr>cm1 := (cm1 (glob s0_in_hold))\<lparr>hold_final := f\<rparr>\<rparr>\<rparr>"

definition hold_exit :: "util \<Rightarrow> firmware \<Rightarrow> (stat_t \<times> firmware) option" where
  "hold_exit u s =
     (case initiate_cycle_start u s of
        None \<Rightarrow> None
      | Some a \<Rightarrow>
          op_run_operation u
            (a\<lparr>glob := run_callback Fn_feedhold_exit_sync_to_planner (glob a)\<rparr>))"

section \<open>Properties of the actions\<close>

lemmas collab_defs = emit_def planner_reset_def mp_queue_command_def cm_set_distance_mode_def
  cm_set_g30_position_def cm_straight_traverse_def spindle_control_sync_def
  coolant_control_sync_def sr_request_status_report_def cm_cycle_start_def
  st_request_exec_move_def cm_cycle_end_def cm_abort_arc_def
  cm_reset_position_to_absolute_position_def cm_goto_g30_position_def
  mp_has_runnable_buffer_def

lemmas handle_defs = the_cm_def cm_assign_def the_machine_def machine_assign_def
  the_planner_def planner_assign_def the_runtime_def

lemmas example_defs = w0_hold_def w0_def cm0_def gm0_def u0_def

text \<open>
  C10: the command blocker returns \<open>STAT_EAGAIN\<close> exactly when the primary hold state is
  not off and \<open>STAT_OK\<close> otherwise; \<open>cm_has_hold\<close> is true under the same condition; both
  leave the state as it is.
\<close>

theorem command_blocker_and_has_hold:
  "(fst (cm_feedhold_command_blocker s) = STAT_EAGAIN
      \<longleftrightarrow> hold_state (cm1 (glob s)) \<noteq> FEEDHOLD_OFF)
   \<and> (fst (cm_feedhold_command_blocker s) = STAT_OK
      \<longleftrightarrow> hold_state (cm1 (glob s)) = FEEDHOLD_OFF)
   \<and> (fst (cm_has_hold s) \<longleftrightarrow> hold_state (cm1 (glob s)) \<noteq> FEEDHOLD_OFF)
   \<and> snd (cm_feedhold_command_blocker s) = s
   \<and> snd (cm_has_hold s) = s"
  by (simp add: cm_feedhold_command_blocker_def cm_has_hold_def)

subsection \<open>The entry action\<close>

lemma copy_primary_to_secondary_eq:
  "copy_primary_to_secondary w =
     w\<lparr>cm2 := (cm1 w)\<lparr>cmMachine.mp := MP2, hold_state := FEEDHOLD_OFF, flush_state := FLUSH_OFF,
                       return_flags := map (\<lambda>_. False) (return_flags (cm1 w)),
                       gm := (gm (cm1 w))\<lparr>motion_mode := MOTION_MODE_CANCEL_MOTION_MODE,
                              absolute_override := ABSOLUTE_OVERRIDE_OFF, feed_rate := 0,
                              target := map (\<lambda>_. 0) (target (gm (cm1 w)))\<rparr>,
                       gmx := (gmx (cm1 w))\<lparr>GCodeStateX.position := mpPlannerRuntime.position (mr1 w)\<rparr>\<rparr>,
       mp2 := (mp2 w)\<lparr>queue := [], mpPlanner.position := mpPlannerRuntime.position (mr1 w)\<rparr>,
       mr2 := (mr2 w)\<lparr>mpPlannerRuntime.position := mpPlannerRuntime.position (mr1 w)\<rparr>,
       trace := trace w @ [Planner_reset MP2]\<rparr>"
  by (simp add: copy_primary_to_secondary_def planner_reset_def emit_def planner_assign_def Let_def)

lemma assign_globals_to_secondary_eq:
  "cmMachine.mp (cm2 w) = MP2 \<Longrightarrow>
   assign_globals_to_secondary w = w\<lparr>cm := CM2, mp := MP2, mr := mpPlanner.mr (mp2 w)\<rparr>"
  by (simp add: assign_globals_to_secondary_def the_cm_def the_planner_def Let_def)

lemma feedhold_z_lift_move_eq:
  "cm w = CM2 \<Longrightarrow>
   feedhold_z_lift_move u w =
     (if fp_NOT_ZERO u (feedhold_z_lift (cm2 w)) then
        w\<lparr>cm2 := (cm2 w)\<lparr>gm := (gm (cm2 w))\<lparr>distance_mode := distance_mode (gm (cm1 w))\<rparr>\<rparr>,
          trace := trace w @
            [Cm_set_distance_mode INCREMENTAL_DISTANCE_MODE,
             Cm_straight_traverse
               [0, 0, to_inches u ((cm2 w)\<lparr>gm := (gm (cm2 w))\<lparr>distance_mode := INCREMENTAL_DISTANCE_MODE\<rparr>\<rparr>)
                        (feedhold_z_lift (cm2 w)), 0, 0, 0]
               [False, False, True, False, False, False] PROFILE_NORMAL,
             Cm_set_distance_mode (distance_mode (gm (cm1 w)))]\<rparr>
      else w)"
  by (simp add: feedhold_z_lift_move_def cm_set_distance_mode_def cm_straight_traverse_def
      emit_def the_cm_def cm_assign_def Let_def)

lemma entry_tail_eq:
  "mp w = MP2 \<Longrightarrow>
   mp_queue_command Fn_feedhold_sync_to_planner
     (coolant_control_sync COOLANT_PAUSE COOLANT_BOTH (spindle_control_sync SPINDLE_PAUSE w)) =
   w\<lparr>mp2 := (mp2 w)\<lparr>queue := queue (mp2 w) @ [COMMAND Fn_feedhold_sync_to_planner]\<rparr>,
     trace := trace w @ [Spindle_control_sync SPINDLE_PAUSE,
                         Coolant_control_sync COOLANT_PAUSE COOLANT_BOTH,
                         Mp_queue_command Fn_feedhold_sync_to_planner]\<rparr>"
  by (simp add: mp_queue_command_def coolant_control_sync_def spindle_control_sync_def
      emit_def planner_assign_def)


lemma feedhold_with_actions_start:
  assumes "hold_state (cm1 w) = FEEDHOLD_HOLD_ACTION_START"
  shows "feedhold_with_actions u prm w =
    (STAT_EAGAIN,
     w\<lparr>cm1 := (case cm w of CM1 \<Rightarrow> (cm1 w)\<lparr>hold_state := FEEDHOLD_HOLD_PENDING\<rparr> | CM2 \<Rightarrow> cm1 w),
       cm2 := secondary_copy w,
       mp2 := (mp2 w)\<lparr>queue := [COMMAND Fn_feedhold_sync_to_planner],
                       mpPlanner.position := mpPlannerRuntime.position (mr1 w)\<rparr>,
       mr2 := (mr2 w)\<lparr>mpPlannerRuntime.position := mpPlannerRuntime.position (mr1 w)\<rparr>,
       cm := CM2, mp := MP2, mr := mpPlanner.mr (mp2 w),
       trace := trace w @ [Planner_reset MP2, Cm_set_g30_position] @
         (if fp_NOT_ZERO u (feedhold_z_lift (cm1 w)) then
            [Cm_set_distance_mode INCREMENTAL_DISTANCE_MODE,
             Cm_straight_traverse
               [0, 0, to_inches u ((secondary_copy w)\<lparr>gm := (gm (secondary_copy w))\<lparr>distance_mode := INCREMENTAL_DISTANCE_MODE\<rparr>\<rparr>)
                        (feedhold_z_lift (cm1 w)), 0, 0, 0]
               [False, False, True, False, False, False] PROFILE_NORMAL,
             Cm_set_distance_mode (distance_mode (gm (cm1 w)))]
          else []) @
         [Spindle_control_sync SPINDLE_PAUSE, Coolant_control_sync COOLANT_PAUSE COOLANT_BOTH,
          Mp_queue_command Fn_feedhold_sync_to_planner]\<rparr>)"
proof -
  have sc: "copy_primary_to_secondary v =
     v\<lparr>cm2 := secondary_copy v,
       mp2 := (mp2 v)\<lparr>queue := [], mpPlanner.position := mpPlannerRuntime.position (mr1 v)\<rparr>,
       mr2 := (mr2 v)\<lparr>mpPlannerRuntime.position := mpPlannerRuntime.position (mr1 v)\<rparr>,
       trace := trace v @ [Planner_reset MP2]\<rparr>" for v
    by (simp add: copy_primary_to_secondary_eq secondary_copy_def)
  have mp: "cmMachine.mp (secondary_copy v) = MP2" for v
    by (simp add: secondary_copy_def)
  have zl: "feedhold_z_lift (secondary_copy v) = feedhold_z_lift (cm1 v)" for v
    by (simp add: secondary_copy_def)
  have dm: "distance_mode (gm (secondary_copy v)) = distance_mode (gm (cm1 v))" for v
    by (simp add: secondary_copy_def)
  have same: "(secondary_copy v)\<lparr>gm := (gm (secondary_copy v))\<lparr>distance_mode := distance_mode (gm (cm1 v))\<rparr>\<rparr>
                = secondary_copy v" for v
    by (simp add: dm [symmetric])
  have sc1: "secondary_copy (v\<lparr>cm1 := (cm1 v)\<lparr>hold_state := FEEDHOLD_HOLD_PENDING\<rparr>\<rparr>) = secondary_copy v" for v
    by (simp add: secondary_copy_def)
  have sc2: "secondary_copy (v\<lparr>cm2 := c\<rparr>) = secondary_copy v" for v c
    by (simp add: secondary_copy_def)
  show ?thesis
  proof (cases "cm w")
    case CM1
    then show ?thesis
      using assms
      by (simp add: feedhold_with_actions_def Let_def cm_assign_def sc mp zl dm same sc1 sc2
          assign_globals_to_secondary_eq cm_set_g30_position_def
          emit_def feedhold_z_lift_move_eq entry_tail_eq)
  next
    case CM2
    then show ?thesis
      using assms
      by (simp add: feedhold_with_actions_def Let_def cm_assign_def sc mp zl dm same sc1 sc2
          assign_globals_to_secondary_eq cm_set_g30_position_def
          emit_def feedhold_z_lift_move_eq entry_tail_eq)
  qed
qed


lemma feedhold_exit_with_actions_done:
  assumes "hold_state (cm1 w) = FEEDHOLD_HOLD_EXIT_DONE"
    and "cmMachine.mp (cm1 w) = MP1" "mpPlanner.mr (mp1 w) = MR1"
  shows "feedhold_exit_with_actions prm w =
    (STAT_OK,
     (if flush_state (cm1 w) = FLUSH_WAS_RUN then
        w\<lparr>cm := CM1, mp := MP1, mr := MR1,
          mp1 := (mp1 w)\<lparr>mpPlanner.position := mpPlannerRuntime.position (mr1 w)\<rparr>,
          trace := trace w @ [Cm_reset_position_to_absolute_position CM1],
          cm1 := (cm1 w)\<lparr>flush_state := FLUSH_OFF\<rparr>\<rparr>
      else w\<lparr>cm := CM1, mp := MP1, mr := MR1\<rparr>))"
  using assms
  by (simp add: feedhold_exit_with_actions_def Let_def handle_defs
      cm_reset_position_to_absolute_position_def emit_def)

text \<open>
  C2: the entry action. First invocation (\<open>FEEDHOLD_HOLD_ACTION_START\<close>, primary machine
  active): it switches to the secondary machine, issues the Z lift when the lift distance is
  not zero and then restores the distance mode of the primary, requests the spindle and
  coolant pause, queues the sync command, leaves the primary hold state pending and returns
  \<open>STAT_EAGAIN\<close>. While pending it returns \<open>STAT_EAGAIN\<close> and changes nothing; when
  done it sets the state to hold and returns \<open>STAT_OK\<close>. The callback of the sync command
  sets the primary hold state to done and requests an immediate status report.
\<close>

theorem feedhold_with_actions_entry:
  "(hold_state (cm1 w) = FEEDHOLD_HOLD_ACTION_START \<and> cm w = CM1 \<longrightarrow>
      (\<exists>w'. feedhold_with_actions u prm w = (STAT_EAGAIN, w')
         \<and> cm w' = CM2
         \<and> trace w' = trace w @ [Planner_reset MP2, Cm_set_g30_position] @
              (if fp_NOT_ZERO u (feedhold_z_lift (cm1 w)) then
                 [Cm_set_distance_mode INCREMENTAL_DISTANCE_MODE,
                  Cm_straight_traverse
                    [0, 0,
                     to_inches u ((cm2 w')\<lparr>gm := (gm (cm2 w'))\<lparr>distance_mode := INCREMENTAL_DISTANCE_MODE\<rparr>\<rparr>)
                       (feedhold_z_lift (cm1 w)),
                     0, 0, 0]
                    [False, False, True, False, False, False] PROFILE_NORMAL,
                  Cm_set_distance_mode (distance_mode (gm (cm1 w)))]
               else []) @
              [Spindle_control_sync SPINDLE_PAUSE, Coolant_control_sync COOLANT_PAUSE COOLANT_BOTH,
               Mp_queue_command Fn_feedhold_sync_to_planner]
         \<and> distance_mode (gm (cm2 w')) = distance_mode (gm (cm1 w))
         \<and> queue (the_planner (mp w') w') = [COMMAND Fn_feedhold_sync_to_planner]
         \<and> hold_state (cm1 w') = FEEDHOLD_HOLD_PENDING))
   \<and> (hold_state (cm1 w) = FEEDHOLD_HOLD_PENDING \<longrightarrow>
        feedhold_with_actions u prm w = (STAT_EAGAIN, w))
   \<and> (hold_state (cm1 w) = FEEDHOLD_HOLD_DONE \<longrightarrow>
        feedhold_with_actions u prm w = (STAT_OK, w\<lparr>cm1 := (cm1 w)\<lparr>hold_state := FEEDHOLD_HOLD\<rparr>\<rparr>))
   \<and> run_callback Fn_feedhold_sync_to_planner v =
        v\<lparr>cm1 := (cm1 v)\<lparr>hold_state := FEEDHOLD_HOLD_DONE\<rparr>,
          trace := trace v @ [Sr_request_status_report SR_REQUEST_IMMEDIATE]\<rparr>"
proof (intro conjI impI)
  assume h: "hold_state (cm1 w) = FEEDHOLD_HOLD_ACTION_START \<and> cm w = CM1"
  show "\<exists>w'. feedhold_with_actions u prm w = (STAT_EAGAIN, w')
         \<and> cm w' = CM2
         \<and> trace w' = trace w @ [Planner_reset MP2, Cm_set_g30_position] @
              (if fp_NOT_ZERO u (feedhold_z_lift (cm1 w)) then
                 [Cm_set_distance_mode INCREMENTAL_DISTANCE_MODE,
                  Cm_straight_traverse
                    [0, 0,
                     to_inches u ((cm2 w')\<lparr>gm := (gm (cm2 w'))\<lparr>distance_mode := INCREMENTAL_DISTANCE_MODE\<rparr>\<rparr>)
                       (feedhold_z_lift (cm1 w)),
                     0, 0, 0]
                    [False, False, True, False, False, False] PROFILE_NORMAL,
                  Cm_set_distance_mode (distance_mode (gm (cm1 w)))]
               else []) @
              [Spindle_control_sync SPINDLE_PAUSE, Coolant_control_sync COOLANT_PAUSE COOLANT_BOTH,
               Mp_queue_command Fn_feedhold_sync_to_planner]
         \<and> distance_mode (gm (cm2 w')) = distance_mode (gm (cm1 w))
         \<and> queue (the_planner (mp w') w') = [COMMAND Fn_feedhold_sync_to_planner]
         \<and> hold_state (cm1 w') = FEEDHOLD_HOLD_PENDING"
    using h
    by (simp add: feedhold_with_actions_start the_planner_def)
      (simp add: secondary_copy_def)
next
  assume "hold_state (cm1 w) = FEEDHOLD_HOLD_PENDING"
  then show "feedhold_with_actions u prm w = (STAT_EAGAIN, w)"
    by (simp add: feedhold_with_actions_def)
next
  assume "hold_state (cm1 w) = FEEDHOLD_HOLD_DONE"
  then show "feedhold_with_actions u prm w = (STAT_OK, w\<lparr>cm1 := (cm1 w)\<lparr>hold_state := FEEDHOLD_HOLD\<rparr>\<rparr>)"
    by (simp add: feedhold_with_actions_def)
next
  show "run_callback Fn_feedhold_sync_to_planner v =
        v\<lparr>cm1 := (cm1 v)\<lparr>hold_state := FEEDHOLD_HOLD_DONE\<rparr>,
          trace := trace v @ [Sr_request_status_report SR_REQUEST_IMMEDIATE]\<rparr>"
    by (simp add: run_callback_def feedhold_sync_to_planner_def sr_request_status_report_def
        emit_def)
qed


theorem feedhold_with_actions_entry_witness:
  "hold_state (cm1 (w0_hold FEEDHOLD_HOLD_ACTION_START)) = FEEDHOLD_HOLD_ACTION_START
   \<and> cm (w0_hold FEEDHOLD_HOLD_ACTION_START) = CM1
   \<and> fst (feedhold_with_actions u0 [] (w0_hold FEEDHOLD_HOLD_ACTION_START)) = STAT_EAGAIN
   \<and> hold_state (cm1 (snd (feedhold_with_actions u0 [] (w0_hold FEEDHOLD_HOLD_ACTION_START))))
        = FEEDHOLD_HOLD_PENDING
   \<and> trace (snd (feedhold_with_actions u0 [] (w0_hold FEEDHOLD_HOLD_ACTION_START))) =
        [Planner_reset MP2, Cm_set_g30_position,
         Cm_set_distance_mode INCREMENTAL_DISTANCE_MODE,
         Cm_straight_traverse [0, 0, 5, 0, 0, 0] [False, False, True, False, False, False]
           PROFILE_NORMAL,
         Cm_set_distance_mode ABSOLUTE_DISTANCE_MODE,
         Spindle_control_sync SPINDLE_PAUSE, Coolant_control_sync COOLANT_PAUSE COOLANT_BOTH,
         Mp_queue_command Fn_feedhold_sync_to_planner]
   \<and> hold_state (cm1 (w0_hold FEEDHOLD_HOLD_PENDING)) = FEEDHOLD_HOLD_PENDING
   \<and> feedhold_with_actions u0 [] (w0_hold FEEDHOLD_HOLD_PENDING)
        = (STAT_EAGAIN, w0_hold FEEDHOLD_HOLD_PENDING)
   \<and> hold_state (cm1 (w0_hold FEEDHOLD_HOLD_DONE)) = FEEDHOLD_HOLD_DONE
   \<and> feedhold_with_actions u0 [] (w0_hold FEEDHOLD_HOLD_DONE)
        = (STAT_OK, w0_hold FEEDHOLD_HOLD)"
proof -
  have a: "hold_state (cm1 (w0_hold FEEDHOLD_HOLD_ACTION_START)) = FEEDHOLD_HOLD_ACTION_START
           \<and> cm (w0_hold FEEDHOLD_HOLD_ACTION_START) = CM1"
    by (simp add: example_defs)
  have p: "hold_state (cm1 (w0_hold FEEDHOLD_HOLD_PENDING)) = FEEDHOLD_HOLD_PENDING"
    by (simp add: example_defs)
  have d: "hold_state (cm1 (w0_hold FEEDHOLD_HOLD_DONE)) = FEEDHOLD_HOLD_DONE"
    by (simp add: example_defs)
  have z: "fp_NOT_ZERO u0 x \<longleftrightarrow> x \<noteq> 0"
    "feedhold_z_lift (cm1 (w0_hold FEEDHOLD_HOLD_ACTION_START)) = 5"
    "distance_mode (gm (cm1 (w0_hold FEEDHOLD_HOLD_ACTION_START))) = ABSOLUTE_DISTANCE_MODE"
    "trace (w0_hold FEEDHOLD_HOLD_ACTION_START) = []"
    "to_inches u0 c x = x" for c x
    by (simp_all add: example_defs)
  have e: "(w0_hold FEEDHOLD_HOLD_DONE)\<lparr>cm1 := (cm1 (w0_hold FEEDHOLD_HOLD_DONE))\<lparr>hold_state := FEEDHOLD_HOLD\<rparr>\<rparr>
             = w0_hold FEEDHOLD_HOLD"
    by (simp add: example_defs)
  show ?thesis
    using feedhold_with_actions_entry [of "w0_hold FEEDHOLD_HOLD_ACTION_START" u0 "[]"]
      feedhold_with_actions_entry [of "w0_hold FEEDHOLD_HOLD_PENDING" u0 "[]"]
      feedhold_with_actions_entry [of "w0_hold FEEDHOLD_HOLD_DONE" u0 "[]"]
      a p d
    by (auto simp add: z e)
qed

text \<open>
  C3: the context switch and the restore. The switch is lines 401--425 of the entry action,
  which runs them on its first invocation, after line 399 and before the hold actions. It
  leaves in the secondary machine a copy of the whole primary machine in which the planner
  handle is the secondary planner, hold state and flush state are off, the motion mode is
  cancelled, the absolute override is off, the feed rate, the target and the return flags are
  zero, and the position is the position of the primary runtime; the compensation
  \<open>target_comp\<close> is that of the primary. The secondary planner is reset to empty; its
  position and the position of the secondary runtime are the position of the primary runtime.
  The three handles point to the secondary objects, and the primary objects are as before.
  No other action makes the secondary machine the active one. On \<open>FEEDHOLD_HOLD_EXIT_DONE\<close>
  the exit action points the three handles back to the primary objects; when no flush was run
  this is all it does.
\<close>

theorem context_switch_and_restore:
  "(mpPlanner.mr (mp2 v) = MR2 \<longrightarrow>
      cm2 (assign_globals_to_secondary (copy_primary_to_secondary v)) =
             (cm1 v)\<lparr>cmMachine.mp := MP2, hold_state := FEEDHOLD_OFF, flush_state := FLUSH_OFF,
                     return_flags := map (\<lambda>_. False) (return_flags (cm1 v)),
                     gm := (gm (cm1 v))\<lparr>motion_mode := MOTION_MODE_CANCEL_MOTION_MODE,
                            absolute_override := ABSOLUTE_OVERRIDE_OFF, feed_rate := 0,
                            target := map (\<lambda>_. 0) (target (gm (cm1 v)))\<rparr>,
                     gmx := (gmx (cm1 v))\<lparr>GCodeStateX.position := mpPlannerRuntime.position (mr1 v)\<rparr>\<rparr>
         \<and> target_comp (gm (cm2 (assign_globals_to_secondary (copy_primary_to_secondary v)))) = target_comp (gm (cm1 v))
         \<and> queue (mp2 (assign_globals_to_secondary (copy_primary_to_secondary v))) = []
         \<and> mpPlanner.position (mp2 (assign_globals_to_secondary (copy_primary_to_secondary v))) = mpPlannerRuntime.position (mr1 v)
         \<and> mpPlannerRuntime.position (mr2 (assign_globals_to_secondary (copy_primary_to_secondary v))) = mpPlannerRuntime.position (mr1 v)
         \<and> cm (assign_globals_to_secondary (copy_primary_to_secondary v)) = CM2 \<and> mp (assign_globals_to_secondary (copy_primary_to_secondary v)) = MP2 \<and> mr (assign_globals_to_secondary (copy_primary_to_secondary v)) = MR2
         \<and> cm1 (assign_globals_to_secondary (copy_primary_to_secondary v)) = cm1 v \<and> mp1 (assign_globals_to_secondary (copy_primary_to_secondary v)) = mp1 v \<and> mr1 (assign_globals_to_secondary (copy_primary_to_secondary v)) = mr1 v
         \<and> trace (assign_globals_to_secondary (copy_primary_to_secondary v)) = trace v @ [Planner_reset MP2])
   \<and> (hold_state (cm1 w) = FEEDHOLD_HOLD_ACTION_START \<longrightarrow>
        feedhold_with_actions u prm w =
          (STAT_EAGAIN,
           mp_queue_command Fn_feedhold_sync_to_planner
             (coolant_control_sync COOLANT_PAUSE COOLANT_BOTH
               (spindle_control_sync SPINDLE_PAUSE
                 (feedhold_z_lift_move u
                   (cm_set_g30_position
                     (assign_globals_to_secondary
                       (copy_primary_to_secondary
                         (cm_assign (\<lambda>c. c\<lparr>hold_state := FEEDHOLD_HOLD_PENDING\<rparr>) w)))))))))
   \<and> (f \<noteq> Fn_feedhold_with_actions \<and> cm w \<noteq> CM2 \<longrightarrow> cm (snd (call_action u f prm w)) \<noteq> CM2)
   \<and> (hold_state (cm1 w) \<noteq> FEEDHOLD_HOLD_ACTION_START \<and> cm w \<noteq> CM2 \<longrightarrow>
        cm (snd (feedhold_with_actions u prm w)) \<noteq> CM2)
   \<and> (hold_state (cm1 w) = FEEDHOLD_HOLD_EXIT_DONE \<and> cmMachine.mp (cm1 w) = MP1
        \<and> mpPlanner.mr (mp1 w) = MR1 \<longrightarrow>
      (\<exists>w'. feedhold_exit_with_actions prm w = (STAT_OK, w')
         \<and> cm w' = CM1 \<and> mp w' = MP1 \<and> mr w' = MR1))
   \<and> (hold_state (cm1 w) = FEEDHOLD_HOLD_EXIT_DONE \<and> cmMachine.mp (cm1 w) = MP1
        \<and> mpPlanner.mr (mp1 w) = MR1 \<and> flush_state (cm1 w) \<noteq> FLUSH_WAS_RUN \<longrightarrow>
      feedhold_exit_with_actions prm w = (STAT_OK, w\<lparr>cm := CM1, mp := MP1, mr := MR1\<rparr>))"
proof (intro conjI impI)
  assume h: "mpPlanner.mr (mp2 v) = MR2"
  have m: "cmMachine.mp (cm2 (copy_primary_to_secondary v)) = MP2"
    by (simp add: copy_primary_to_secondary_eq)
  show "cm2 (assign_globals_to_secondary (copy_primary_to_secondary v)) =
             (cm1 v)\<lparr>cmMachine.mp := MP2, hold_state := FEEDHOLD_OFF, flush_state := FLUSH_OFF,
                     return_flags := map (\<lambda>_. False) (return_flags (cm1 v)),
                     gm := (gm (cm1 v))\<lparr>motion_mode := MOTION_MODE_CANCEL_MOTION_MODE,
                            absolute_override := ABSOLUTE_OVERRIDE_OFF, feed_rate := 0,
                            target := map (\<lambda>_. 0) (target (gm (cm1 v)))\<rparr>,
                     gmx := (gmx (cm1 v))\<lparr>GCodeStateX.position := mpPlannerRuntime.position (mr1 v)\<rparr>\<rparr>"
    by (simp add: assign_globals_to_secondary_eq [OF m]) (simp add: copy_primary_to_secondary_eq)
  show "target_comp (gm (cm2 (assign_globals_to_secondary (copy_primary_to_secondary v)))) = target_comp (gm (cm1 v))"
    by (simp add: assign_globals_to_secondary_eq [OF m]) (simp add: copy_primary_to_secondary_eq)
  show "queue (mp2 (assign_globals_to_secondary (copy_primary_to_secondary v))) = []"
    by (simp add: assign_globals_to_secondary_eq [OF m]) (simp add: copy_primary_to_secondary_eq)
  show "mpPlanner.position (mp2 (assign_globals_to_secondary (copy_primary_to_secondary v))) = mpPlannerRuntime.position (mr1 v)"
    by (simp add: assign_globals_to_secondary_eq [OF m]) (simp add: copy_primary_to_secondary_eq)
  show "mpPlannerRuntime.position (mr2 (assign_globals_to_secondary (copy_primary_to_secondary v))) = mpPlannerRuntime.position (mr1 v)"
    by (simp add: assign_globals_to_secondary_eq [OF m]) (simp add: copy_primary_to_secondary_eq)
  show "cm (assign_globals_to_secondary (copy_primary_to_secondary v)) = CM2" "mp (assign_globals_to_secondary (copy_primary_to_secondary v)) = MP2"
    by (simp_all add: assign_globals_to_secondary_eq [OF m])
  show "mr (assign_globals_to_secondary (copy_primary_to_secondary v)) = MR2"
    using h by (simp add: assign_globals_to_secondary_eq [OF m]) (simp add: copy_primary_to_secondary_eq)
  show "cm1 (assign_globals_to_secondary (copy_primary_to_secondary v)) = cm1 v" "mp1 (assign_globals_to_secondary (copy_primary_to_secondary v)) = mp1 v" "mr1 (assign_globals_to_secondary (copy_primary_to_secondary v)) = mr1 v"
    "trace (assign_globals_to_secondary (copy_primary_to_secondary v)) = trace v @ [Planner_reset MP2]"
    by (simp_all add: assign_globals_to_secondary_eq [OF m])
      (simp_all add: copy_primary_to_secondary_eq)
next
  assume "hold_state (cm1 w) = FEEDHOLD_HOLD_ACTION_START"
  then show "feedhold_with_actions u prm w =
          (STAT_EAGAIN,
           mp_queue_command Fn_feedhold_sync_to_planner
             (coolant_control_sync COOLANT_PAUSE COOLANT_BOTH
               (spindle_control_sync SPINDLE_PAUSE
                 (feedhold_z_lift_move u
                   (cm_set_g30_position
                     (assign_globals_to_secondary
                       (copy_primary_to_secondary
                         (cm_assign (\<lambda>c. c\<lparr>hold_state := FEEDHOLD_HOLD_PENDING\<rparr>) w))))))))"
    by (simp add: feedhold_with_actions_def Let_def)
next
  assume h: "f \<noteq> Fn_feedhold_with_actions \<and> cm w \<noteq> CM2"
  then show "cm (snd (call_action u f prm w)) \<noteq> CM2"
    by (cases f)
      (simp_all add: call_action_def feedhold_with_no_actions_def feedhold_with_sync_def
        feedhold_exit_with_no_actions_def program_stop_def program_end_def alarm_def
        shutdown_def interlock_def cycle_exit_def feedhold_exit_with_actions_def
        collab_defs handle_defs Let_def split: mp_ptr.split)
next
  assume "hold_state (cm1 w) \<noteq> FEEDHOLD_HOLD_ACTION_START \<and> cm w \<noteq> CM2"
  then show "cm (snd (feedhold_with_actions u prm w)) \<noteq> CM2"
    by (simp add: feedhold_with_actions_def)
next
  assume h: "hold_state (cm1 w) = FEEDHOLD_HOLD_EXIT_DONE \<and> cmMachine.mp (cm1 w) = MP1
        \<and> mpPlanner.mr (mp1 w) = MR1"
  then show "\<exists>w'. feedhold_exit_with_actions prm w = (STAT_OK, w')
         \<and> cm w' = CM1 \<and> mp w' = MP1 \<and> mr w' = MR1"
    by (simp add: feedhold_exit_with_actions_done)
next
  assume h: "hold_state (cm1 w) = FEEDHOLD_HOLD_EXIT_DONE \<and> cmMachine.mp (cm1 w) = MP1
        \<and> mpPlanner.mr (mp1 w) = MR1 \<and> flush_state (cm1 w) \<noteq> FLUSH_WAS_RUN"
  then show "feedhold_exit_with_actions prm w = (STAT_OK, w\<lparr>cm := CM1, mp := MP1, mr := MR1\<rparr>)"
    by (simp add: feedhold_exit_with_actions_done)
qed

theorem context_switch_and_restore_witness:
  "mpPlanner.mr (mp2 (w0_hold FEEDHOLD_HOLD_PENDING)) = MR2
   \<and> cm2 (assign_globals_to_secondary (copy_primary_to_secondary (w0_hold FEEDHOLD_HOLD_PENDING))) =
       \<lparr>hold_state = FEEDHOLD_OFF, hold_type = FEEDHOLD_TYPE_ACTIONS,
        hold_final = FEEDHOLD_FINAL_CYCLE, flush_state = FLUSH_OFF, cycle_state = CYCLE_OFF,
        motion_state = MOTION_RUN, cmMachine.mp = MP2,
        gm = \<lparr>motion_mode = MOTION_MODE_CANCEL_MOTION_MODE,
               absolute_override = ABSOLUTE_OVERRIDE_OFF, feed_rate = 0,
               target = [0, 0, 0, 0, 0, 0], target_comp = [1, 2, 3, 0, 0, 0],
               distance_mode = ABSOLUTE_DISTANCE_MODE\<rparr>,
        gmx = \<lparr>GCodeStateX.position = [9, 19, 29, 0, 0, 0], g30_position = [0, 0, 0, 0, 0, 0]\<rparr>,
        return_flags = [False, False, False, False, False, False], feedhold_z_lift = 5\<rparr>
   \<and> queue (mp2 (assign_globals_to_secondary (copy_primary_to_secondary (w0_hold FEEDHOLD_HOLD_PENDING)))) = []
   \<and> cm (assign_globals_to_secondary (copy_primary_to_secondary (w0_hold FEEDHOLD_HOLD_PENDING))) = CM2
   \<and> mp (assign_globals_to_secondary (copy_primary_to_secondary (w0_hold FEEDHOLD_HOLD_PENDING))) = MP2
   \<and> mr (assign_globals_to_secondary (copy_primary_to_secondary (w0_hold FEEDHOLD_HOLD_PENDING))) = MR2
   \<and> cm1 (assign_globals_to_secondary (copy_primary_to_secondary (w0_hold FEEDHOLD_HOLD_PENDING))) = cm1 (w0_hold FEEDHOLD_HOLD_PENDING)
   \<and> hold_state (cm1 (w0_hold FEEDHOLD_HOLD_ACTION_START)) = FEEDHOLD_HOLD_ACTION_START
   \<and> fst (feedhold_with_actions u0 [] (w0_hold FEEDHOLD_HOLD_ACTION_START)) = STAT_EAGAIN
   \<and> Fn_cycle_exit \<noteq> Fn_feedhold_with_actions \<and> cm w0 \<noteq> CM2
   \<and> cm (snd (call_action u0 Fn_cycle_exit [] w0)) \<noteq> CM2
   \<and> hold_state (cm1 w0) \<noteq> FEEDHOLD_HOLD_ACTION_START
   \<and> cm (snd (feedhold_with_actions u0 [] w0)) \<noteq> CM2
   \<and> hold_state (cm1 ((w0_hold FEEDHOLD_HOLD_EXIT_DONE)\<lparr>cm := CM2, mp := MP2, mr := MR2\<rparr>)) = FEEDHOLD_HOLD_EXIT_DONE
   \<and> cmMachine.mp (cm1 ((w0_hold FEEDHOLD_HOLD_EXIT_DONE)\<lparr>cm := CM2, mp := MP2, mr := MR2\<rparr>)) = MP1
   \<and> mpPlanner.mr (mp1 ((w0_hold FEEDHOLD_HOLD_EXIT_DONE)\<lparr>cm := CM2, mp := MP2, mr := MR2\<rparr>)) = MR1
   \<and> flush_state (cm1 ((w0_hold FEEDHOLD_HOLD_EXIT_DONE)\<lparr>cm := CM2, mp := MP2, mr := MR2\<rparr>)) \<noteq> FLUSH_WAS_RUN
   \<and> feedhold_exit_with_actions [] ((w0_hold FEEDHOLD_HOLD_EXIT_DONE)\<lparr>cm := CM2, mp := MP2, mr := MR2\<rparr>) = (STAT_OK, w0_hold FEEDHOLD_HOLD_EXIT_DONE)
   \<and> hold_state (cm1 ((w0_hold FEEDHOLD_HOLD_EXIT_DONE)\<lparr>cm1 := cm0\<lparr>hold_state := FEEDHOLD_HOLD_EXIT_DONE, flush_state := FLUSH_WAS_RUN\<rparr>, cm := CM2, mp := MP2, mr := MR2\<rparr>)) = FEEDHOLD_HOLD_EXIT_DONE
   \<and> flush_state (cm1 ((w0_hold FEEDHOLD_HOLD_EXIT_DONE)\<lparr>cm1 := cm0\<lparr>hold_state := FEEDHOLD_HOLD_EXIT_DONE, flush_state := FLUSH_WAS_RUN\<rparr>, cm := CM2, mp := MP2, mr := MR2\<rparr>)) = FLUSH_WAS_RUN
   \<and> cm (snd (feedhold_exit_with_actions [] ((w0_hold FEEDHOLD_HOLD_EXIT_DONE)\<lparr>cm1 := cm0\<lparr>hold_state := FEEDHOLD_HOLD_EXIT_DONE, flush_state := FLUSH_WAS_RUN\<rparr>, cm := CM2, mp := MP2, mr := MR2\<rparr>))) = CM1
   \<and> mp (snd (feedhold_exit_with_actions [] ((w0_hold FEEDHOLD_HOLD_EXIT_DONE)\<lparr>cm1 := cm0\<lparr>hold_state := FEEDHOLD_HOLD_EXIT_DONE, flush_state := FLUSH_WAS_RUN\<rparr>, cm := CM2, mp := MP2, mr := MR2\<rparr>))) = MP1
   \<and> mr (snd (feedhold_exit_with_actions [] ((w0_hold FEEDHOLD_HOLD_EXIT_DONE)\<lparr>cm1 := cm0\<lparr>hold_state := FEEDHOLD_HOLD_EXIT_DONE, flush_state := FLUSH_WAS_RUN\<rparr>, cm := CM2, mp := MP2, mr := MR2\<rparr>))) = MR1"
proof -
  let ?p = "w0_hold FEEDHOLD_HOLD_PENDING"
  let ?a = "w0_hold FEEDHOLD_HOLD_ACTION_START"
  let ?x = "(w0_hold FEEDHOLD_HOLD_EXIT_DONE)\<lparr>cm := CM2, mp := MP2, mr := MR2\<rparr>"
  let ?y = "(w0_hold FEEDHOLD_HOLD_EXIT_DONE)\<lparr>cm1 := cm0\<lparr>hold_state := FEEDHOLD_HOLD_EXIT_DONE, flush_state := FLUSH_WAS_RUN\<rparr>, cm := CM2, mp := MP2, mr := MR2\<rparr>"
  have p: "mpPlanner.mr (mp2 ?p) = MR2"
    by (simp add: example_defs)
  have a: "hold_state (cm1 ?a) = FEEDHOLD_HOLD_ACTION_START"
    by (simp add: example_defs)
  have b: "Fn_cycle_exit \<noteq> Fn_feedhold_with_actions \<and> cm w0 \<noteq> CM2"
    by (simp add: example_defs)
  have c: "hold_state (cm1 w0) \<noteq> FEEDHOLD_HOLD_ACTION_START \<and> cm w0 \<noteq> CM2"
    by (simp add: example_defs)
  have x: "hold_state (cm1 ?x) = FEEDHOLD_HOLD_EXIT_DONE \<and> cmMachine.mp (cm1 ?x) = MP1
        \<and> mpPlanner.mr (mp1 ?x) = MR1 \<and> flush_state (cm1 ?x) \<noteq> FLUSH_WAS_RUN"
    by (simp add: example_defs)
  have y: "hold_state (cm1 ?y) = FEEDHOLD_HOLD_EXIT_DONE \<and> cmMachine.mp (cm1 ?y) = MP1
        \<and> mpPlanner.mr (mp1 ?y) = MR1" "flush_state (cm1 ?y) = FLUSH_WAS_RUN"
    by (simp_all add: example_defs)
  have s1: "(cm1 ?p)\<lparr>cmMachine.mp := MP2, hold_state := FEEDHOLD_OFF, flush_state := FLUSH_OFF,
                     return_flags := map (\<lambda>_. False) (return_flags (cm1 ?p)),
                     gm := (gm (cm1 ?p))\<lparr>motion_mode := MOTION_MODE_CANCEL_MOTION_MODE,
                            absolute_override := ABSOLUTE_OVERRIDE_OFF, feed_rate := 0,
                            target := map (\<lambda>_. 0) (target (gm (cm1 ?p)))\<rparr>,
                     gmx := (gmx (cm1 ?p))\<lparr>GCodeStateX.position := mpPlannerRuntime.position (mr1 ?p)\<rparr>\<rparr>
       = \<lparr>hold_state = FEEDHOLD_OFF, hold_type = FEEDHOLD_TYPE_ACTIONS,
        hold_final = FEEDHOLD_FINAL_CYCLE, flush_state = FLUSH_OFF, cycle_state = CYCLE_OFF,
        motion_state = MOTION_RUN, cmMachine.mp = MP2,
        gm = \<lparr>motion_mode = MOTION_MODE_CANCEL_MOTION_MODE,
               absolute_override = ABSOLUTE_OVERRIDE_OFF, feed_rate = 0,
               target = [0, 0, 0, 0, 0, 0], target_comp = [1, 2, 3, 0, 0, 0],
               distance_mode = ABSOLUTE_DISTANCE_MODE\<rparr>,
        gmx = \<lparr>GCodeStateX.position = [9, 19, 29, 0, 0, 0], g30_position = [0, 0, 0, 0, 0, 0]\<rparr>,
        return_flags = [False, False, False, False, False, False], feedhold_z_lift = 5\<rparr>"
    by (simp add: example_defs)
  have s2: "?x\<lparr>cm := CM1, mp := MP1, mr := MR1\<rparr> = w0_hold FEEDHOLD_HOLD_EXIT_DONE"
    by (simp add: example_defs)
  note t1 = context_switch_and_restore [where v = ?p and w = ?a and u = u0 and prm = "[]"
      and f = Fn_cycle_exit]
  note t2 = context_switch_and_restore [where v = ?p and w = w0 and u = u0 and prm = "[]"
      and f = Fn_cycle_exit]
  note t3 = context_switch_and_restore [where v = ?p and w = ?x and u = u0 and prm = "[]"
      and f = Fn_cycle_exit]
  note t4 = context_switch_and_restore [where v = ?p and w = ?y and u = u0 and prm = "[]"
      and f = Fn_cycle_exit]
  have r1: "cm2 (assign_globals_to_secondary (copy_primary_to_secondary (w0_hold FEEDHOLD_HOLD_PENDING))) =
       \<lparr>hold_state = FEEDHOLD_OFF, hold_type = FEEDHOLD_TYPE_ACTIONS,
        hold_final = FEEDHOLD_FINAL_CYCLE, flush_state = FLUSH_OFF, cycle_state = CYCLE_OFF,
        motion_state = MOTION_RUN, cmMachine.mp = MP2,
        gm = \<lparr>motion_mode = MOTION_MODE_CANCEL_MOTION_MODE,
               absolute_override = ABSOLUTE_OVERRIDE_OFF, feed_rate = 0,
               target = [0, 0, 0, 0, 0, 0], target_comp = [1, 2, 3, 0, 0, 0],
               distance_mode = ABSOLUTE_DISTANCE_MODE\<rparr>,
        gmx = \<lparr>GCodeStateX.position = [9, 19, 29, 0, 0, 0], g30_position = [0, 0, 0, 0, 0, 0]\<rparr>,
        return_flags = [False, False, False, False, False, False], feedhold_z_lift = 5\<rparr>"
    "queue (mp2 (assign_globals_to_secondary (copy_primary_to_secondary (w0_hold FEEDHOLD_HOLD_PENDING)))) = []" "cm (assign_globals_to_secondary (copy_primary_to_secondary (w0_hold FEEDHOLD_HOLD_PENDING))) = CM2" "mp (assign_globals_to_secondary (copy_primary_to_secondary (w0_hold FEEDHOLD_HOLD_PENDING))) = MP2" "mr (assign_globals_to_secondary (copy_primary_to_secondary (w0_hold FEEDHOLD_HOLD_PENDING))) = MR2"
    "cm1 (assign_globals_to_secondary (copy_primary_to_secondary (w0_hold FEEDHOLD_HOLD_PENDING))) = cm1 ?p"
    using t1 p by (simp_all add: s1)
  have r2: "fst (feedhold_with_actions u0 [] ?a) = STAT_EAGAIN"
    using t1 a by simp
  have r3: "cm (snd (call_action u0 Fn_cycle_exit [] w0)) \<noteq> CM2"
    "cm (snd (feedhold_with_actions u0 [] w0)) \<noteq> CM2"
    using t2 b c by simp_all
  have r4: "feedhold_exit_with_actions [] ?x = (STAT_OK, w0_hold FEEDHOLD_HOLD_EXIT_DONE)"
  proof -
    from t3 x have "feedhold_exit_with_actions [] ?x = (STAT_OK, ?x\<lparr>cm := CM1, mp := MP1, mr := MR1\<rparr>)"
      by blast
    then show ?thesis
      by (simp only: s2)
  qed
  have r5: "cm (snd (feedhold_exit_with_actions [] ?y)) = CM1"
    "mp (snd (feedhold_exit_with_actions [] ?y)) = MP1"
    "mr (snd (feedhold_exit_with_actions [] ?y)) = MR1"
  proof -
    from t4 y(1) obtain w' where "feedhold_exit_with_actions [] ?y = (STAT_OK, w')"
      and "cm w' = CM1" "mp w' = MP1" "mr w' = MR1"
      by blast
    then show "cm (snd (feedhold_exit_with_actions [] ?y)) = CM1"
      "mp (snd (feedhold_exit_with_actions [] ?y)) = MP1"
      "mr (snd (feedhold_exit_with_actions [] ?y)) = MR1"
      by simp_all
  qed
  show ?thesis
    using p a b c x y r1 r2 r3 r4 r5 by simp
qed

subsection \<open>Termination actions\<close>

text \<open>
  The cycle-resume termination action \<open>_cycle_exit\<close> (lines 523--533) starts the cycle and
  requests move execution when the primary planner has a runnable buffer, ends the cycle
  otherwise, sets the primary hold state to off in both cases and returns \<open>STAT_OK\<close>,
  changing nothing else.
\<close>

lemma cycle_exit_closed_form:
  "cycle_exit prm w =
     (STAT_OK,
      w\<lparr>trace := trace w @ (if mp_has_runnable_buffer MP1 w
                             then [Cm_cycle_start, St_request_exec_move]
                             else [Cm_cycle_end]),
        cm1 := (cm1 w)\<lparr>hold_state := FEEDHOLD_OFF\<rparr>\<rparr>)"
  by (simp add: cycle_exit_def cm_cycle_start_def st_request_exec_move_def cm_cycle_end_def
      emit_def Let_def)

text \<open>
  C4: the stop, end, alarm, shutdown and interlock termination actions (lines 369--392) return
  \<open>STAT_OK\<close> and leave every state as it is: they neither resume motion, nor end the cycle,
  nor set the primary hold state to off. Invoked after the exit action has completed (primary
  hold state \<open>FEEDHOLD_HOLD_EXIT_DONE\<close>, a runnable buffer in the primary planner), each of
  them leaves the hold state at \<open>FEEDHOLD_HOLD_EXIT_DONE\<close> and calls no collaborator, where
  the cycle-resume action starts the cycle, requests move execution and sets the hold state to
  off. The same through the runner: the exit of a hold with actions ends with status
  \<open>STAT_OK\<close> and an idle runner for every final state, with the primary machine active
  again, but the primary hold state is off only for the final state
  \<open>FEEDHOLD_FINAL_CYCLE\<close>; for the other five it stays \<open>FEEDHOLD_HOLD_EXIT_DONE\<close>,
  neither \<open>cm_cycle_start\<close> nor \<open>cm_cycle_end\<close> is called, \<open>cm_has_hold\<close> is true
  and \<open>cm_feedhold_command_blocker\<close> returns \<open>STAT_EAGAIN\<close>.
\<close>

theorem termination_actions_keep_hold:
  "call_action u Fn_program_stop prm w = (STAT_OK, w)
   \<and> call_action u Fn_program_end prm w = (STAT_OK, w)
   \<and> call_action u Fn_alarm prm w = (STAT_OK, w)
   \<and> call_action u Fn_shutdown prm w = (STAT_OK, w)
   \<and> call_action u Fn_interlock prm w = (STAT_OK, w)
   \<and> mp_has_runnable_buffer MP1 (w0_hold FEEDHOLD_HOLD_EXIT_DONE)
   \<and> map (\<lambda>f. hold_state (cm1 (snd (call_action u0 f [] (w0_hold FEEDHOLD_HOLD_EXIT_DONE)))))
        [Fn_program_stop, Fn_program_end, Fn_alarm, Fn_shutdown, Fn_interlock, Fn_cycle_exit]
      = [FEEDHOLD_HOLD_EXIT_DONE, FEEDHOLD_HOLD_EXIT_DONE, FEEDHOLD_HOLD_EXIT_DONE,
         FEEDHOLD_HOLD_EXIT_DONE, FEEDHOLD_HOLD_EXIT_DONE, FEEDHOLD_OFF]
   \<and> map (\<lambda>f. trace (snd (call_action u0 f [] (w0_hold FEEDHOLD_HOLD_EXIT_DONE))))
        [Fn_program_stop, Fn_program_end, Fn_alarm, Fn_shutdown, Fn_interlock, Fn_cycle_exit]
      = [[], [], [], [], [], [Cm_cycle_start, St_request_exec_move]]
   \<and> map (\<lambda>f. map_option fst (hold_exit u0 (s0_hold_final f)))
        [FEEDHOLD_FINAL_STOP, FEEDHOLD_FINAL_END, FEEDHOLD_FINAL_ALARM, FEEDHOLD_FINAL_SHUTDOWN,
         FEEDHOLD_FINAL_INTERLOCK, FEEDHOLD_FINAL_CYCLE]
      = [Some STAT_OK, Some STAT_OK, Some STAT_OK, Some STAT_OK, Some STAT_OK, Some STAT_OK]
   \<and> map (\<lambda>f. in_operation (op (snd (the (hold_exit u0 (s0_hold_final f))))))
        [FEEDHOLD_FINAL_STOP, FEEDHOLD_FINAL_END, FEEDHOLD_FINAL_ALARM, FEEDHOLD_FINAL_SHUTDOWN,
         FEEDHOLD_FINAL_INTERLOCK, FEEDHOLD_FINAL_CYCLE]
      = [False, False, False, False, False, False]
   \<and> map (\<lambda>f. cm (glob (snd (the (hold_exit u0 (s0_hold_final f))))))
        [FEEDHOLD_FINAL_STOP, FEEDHOLD_FINAL_END, FEEDHOLD_FINAL_ALARM, FEEDHOLD_FINAL_SHUTDOWN,
         FEEDHOLD_FINAL_INTERLOCK, FEEDHOLD_FINAL_CYCLE]
      = [CM1, CM1, CM1, CM1, CM1, CM1]
   \<and> map (\<lambda>f. hold_state (cm1 (glob (snd (the (hold_exit u0 (s0_hold_final f)))))))
        [FEEDHOLD_FINAL_STOP, FEEDHOLD_FINAL_END, FEEDHOLD_FINAL_ALARM, FEEDHOLD_FINAL_SHUTDOWN,
         FEEDHOLD_FINAL_INTERLOCK, FEEDHOLD_FINAL_CYCLE]
      = [FEEDHOLD_HOLD_EXIT_DONE, FEEDHOLD_HOLD_EXIT_DONE, FEEDHOLD_HOLD_EXIT_DONE,
         FEEDHOLD_HOLD_EXIT_DONE, FEEDHOLD_HOLD_EXIT_DONE, FEEDHOLD_OFF]
   \<and> map (\<lambda>f. filter (\<lambda>e. e = Cm_cycle_start \<or> e = St_request_exec_move \<or> e = Cm_cycle_end)
                 (trace (glob (snd (the (hold_exit u0 (s0_hold_final f)))))))
        [FEEDHOLD_FINAL_STOP, FEEDHOLD_FINAL_END, FEEDHOLD_FINAL_ALARM, FEEDHOLD_FINAL_SHUTDOWN,
         FEEDHOLD_FINAL_INTERLOCK, FEEDHOLD_FINAL_CYCLE]
      = [[], [], [], [], [], [Cm_cycle_start, St_request_exec_move]]
   \<and> map (\<lambda>f. fst (cm_has_hold (snd (the (hold_exit u0 (s0_hold_final f))))))
        [FEEDHOLD_FINAL_STOP, FEEDHOLD_FINAL_END, FEEDHOLD_FINAL_ALARM, FEEDHOLD_FINAL_SHUTDOWN,
         FEEDHOLD_FINAL_INTERLOCK, FEEDHOLD_FINAL_CYCLE]
      = [True, True, True, True, True, False]
   \<and> map (\<lambda>f. fst (cm_feedhold_command_blocker (snd (the (hold_exit u0 (s0_hold_final f))))))
        [FEEDHOLD_FINAL_STOP, FEEDHOLD_FINAL_END, FEEDHOLD_FINAL_ALARM, FEEDHOLD_FINAL_SHUTDOWN,
         FEEDHOLD_FINAL_INTERLOCK, FEEDHOLD_FINAL_CYCLE]
      = [STAT_EAGAIN, STAT_EAGAIN, STAT_EAGAIN, STAT_EAGAIN, STAT_EAGAIN, STAT_OK]"
proof -
  have g: "call_action u Fn_program_stop prm w = (STAT_OK, w)"
    "call_action u Fn_program_end prm w = (STAT_OK, w)"
    "call_action u Fn_alarm prm w = (STAT_OK, w)"
    "call_action u Fn_shutdown prm w = (STAT_OK, w)"
    "call_action u Fn_interlock prm w = (STAT_OK, w)"
    by (simp_all add: call_action_def program_stop_def program_end_def alarm_def shutdown_def
        interlock_def)
  have a: "mp_has_runnable_buffer MP1 (w0_hold FEEDHOLD_HOLD_EXIT_DONE)"
    by code_simp
  have b: "map (\<lambda>f. hold_state (cm1 (snd (call_action u0 f [] (w0_hold FEEDHOLD_HOLD_EXIT_DONE)))))
        [Fn_program_stop, Fn_program_end, Fn_alarm, Fn_shutdown, Fn_interlock, Fn_cycle_exit]
      = [FEEDHOLD_HOLD_EXIT_DONE, FEEDHOLD_HOLD_EXIT_DONE, FEEDHOLD_HOLD_EXIT_DONE,
         FEEDHOLD_HOLD_EXIT_DONE, FEEDHOLD_HOLD_EXIT_DONE, FEEDHOLD_OFF]"
    by code_simp
  have c: "map (\<lambda>f. trace (snd (call_action u0 f [] (w0_hold FEEDHOLD_HOLD_EXIT_DONE))))
        [Fn_program_stop, Fn_program_end, Fn_alarm, Fn_shutdown, Fn_interlock, Fn_cycle_exit]
      = [[], [], [], [], [], [Cm_cycle_start, St_request_exec_move]]"
    by code_simp
  have d: "map (\<lambda>f. map_option fst (hold_exit u0 (s0_hold_final f)))
        [FEEDHOLD_FINAL_STOP, FEEDHOLD_FINAL_END, FEEDHOLD_FINAL_ALARM, FEEDHOLD_FINAL_SHUTDOWN,
         FEEDHOLD_FINAL_INTERLOCK, FEEDHOLD_FINAL_CYCLE]
      = [Some STAT_OK, Some STAT_OK, Some STAT_OK, Some STAT_OK, Some STAT_OK, Some STAT_OK]"
    by code_simp
  have e: "map (\<lambda>f. in_operation (op (snd (the (hold_exit u0 (s0_hold_final f))))))
        [FEEDHOLD_FINAL_STOP, FEEDHOLD_FINAL_END, FEEDHOLD_FINAL_ALARM, FEEDHOLD_FINAL_SHUTDOWN,
         FEEDHOLD_FINAL_INTERLOCK, FEEDHOLD_FINAL_CYCLE]
      = [False, False, False, False, False, False]"
    by code_simp
  have f: "map (\<lambda>f. cm (glob (snd (the (hold_exit u0 (s0_hold_final f))))))
        [FEEDHOLD_FINAL_STOP, FEEDHOLD_FINAL_END, FEEDHOLD_FINAL_ALARM, FEEDHOLD_FINAL_SHUTDOWN,
         FEEDHOLD_FINAL_INTERLOCK, FEEDHOLD_FINAL_CYCLE]
      = [CM1, CM1, CM1, CM1, CM1, CM1]"
    by code_simp
  have h: "map (\<lambda>f. hold_state (cm1 (glob (snd (the (hold_exit u0 (s0_hold_final f)))))))
        [FEEDHOLD_FINAL_STOP, FEEDHOLD_FINAL_END, FEEDHOLD_FINAL_ALARM, FEEDHOLD_FINAL_SHUTDOWN,
         FEEDHOLD_FINAL_INTERLOCK, FEEDHOLD_FINAL_CYCLE]
      = [FEEDHOLD_HOLD_EXIT_DONE, FEEDHOLD_HOLD_EXIT_DONE, FEEDHOLD_HOLD_EXIT_DONE,
         FEEDHOLD_HOLD_EXIT_DONE, FEEDHOLD_HOLD_EXIT_DONE, FEEDHOLD_OFF]"
    by code_simp
  have i: "map (\<lambda>f. filter (\<lambda>e. e = Cm_cycle_start \<or> e = St_request_exec_move \<or> e = Cm_cycle_end)
                 (trace (glob (snd (the (hold_exit u0 (s0_hold_final f)))))))
        [FEEDHOLD_FINAL_STOP, FEEDHOLD_FINAL_END, FEEDHOLD_FINAL_ALARM, FEEDHOLD_FINAL_SHUTDOWN,
         FEEDHOLD_FINAL_INTERLOCK, FEEDHOLD_FINAL_CYCLE]
      = [[], [], [], [], [], [Cm_cycle_start, St_request_exec_move]]"
    by code_simp
  have j: "map (\<lambda>f. fst (cm_has_hold (snd (the (hold_exit u0 (s0_hold_final f))))))
        [FEEDHOLD_FINAL_STOP, FEEDHOLD_FINAL_END, FEEDHOLD_FINAL_ALARM, FEEDHOLD_FINAL_SHUTDOWN,
         FEEDHOLD_FINAL_INTERLOCK, FEEDHOLD_FINAL_CYCLE]
      = [True, True, True, True, True, False]"
    by code_simp
  have k: "map (\<lambda>f. fst (cm_feedhold_command_blocker (snd (the (hold_exit u0 (s0_hold_final f))))))
        [FEEDHOLD_FINAL_STOP, FEEDHOLD_FINAL_END, FEEDHOLD_FINAL_ALARM, FEEDHOLD_FINAL_SHUTDOWN,
         FEEDHOLD_FINAL_INTERLOCK, FEEDHOLD_FINAL_CYCLE]
      = [STAT_EAGAIN, STAT_EAGAIN, STAT_EAGAIN, STAT_EAGAIN, STAT_EAGAIN, STAT_OK]"
    by code_simp
  show ?thesis
    by (intro conjI g a b c d e f h i j k)
qed

section \<open>Properties of the runner\<close>

lemma reset_action_nth:
  "i < ACTION_MAX \<Longrightarrow>
   action (cmOperation_reset opr) ! i =
     (action opr ! i)\<lparr>func := None, number := i,
                      nx := (if Suc i < ACTION_MAX then Some (Suc i) else None)\<rparr>"
  by (auto simp add: cmOperation_reset_def cmAction_reset_def Let_def ACTION_MAX_def
      nth_list_update)

lemma reset_length: "length (action (cmOperation_reset opr)) = ACTION_MAX"
  by (simp add: cmOperation_reset_def Let_def)

lemma reset_cursors:
  "add (cmOperation_reset opr) = Some 0" "run (cmOperation_reset opr) = Some 0"
  "\<not> in_operation (cmOperation_reset opr)"
  by (simp_all add: cmOperation_reset_def Let_def)

lemma reset_idle: "idle (cmOperation_reset opr)"
  by (simp add: idle_def linked_def reset_length reset_cursors reset_action_nth)

lemma reset_param:
  "i < ACTION_MAX \<Longrightarrow> param (action (cmOperation_reset opr) ! i) = param (action opr ! i)"
  by (simp add: reset_action_nth)

lemma reset_run_update: "cmOperation_reset (opr\<lparr>run := r\<rparr>) = cmOperation_reset opr"
  by (simp add: cmOperation_reset_def Let_def)

lemma reset_in_operation_update:
  "cmOperation_reset (opr\<lparr>in_operation := b\<rparr>) = cmOperation_reset opr"
  by (simp add: cmOperation_reset_def Let_def)

lemma add_action_running:
  "in_operation opr \<Longrightarrow> add_action f prm opr = (STAT_COMMAND_NOT_ACCEPTED, opr)"
  by (simp add: add_action_def)

lemma add_action_full:
  "\<not> in_operation opr \<Longrightarrow> add opr = None \<Longrightarrow>
   add_action f prm opr = (STAT_INPUT_EXCEEDS_MAX_LENGTH, opr)"
  by (simp add: add_action_def)

lemma add_action_ok:
  assumes "\<not> in_operation opr" "add opr = Some i"
  shows "add_action f prm opr =
    (STAT_OK,
     opr\<lparr>action := (action opr)[i := (action opr ! i)
              \<lparr>func := Some f,
               param := (case prm of None \<Rightarrow> param (action opr ! i)
                         | Some p \<Rightarrow> map (\<lambda>k. p ! k) [0..<PARAM_MAX])\<rparr>],
         add := nx (action opr ! i)\<rparr>)"
  using assms by (simp add: add_action_def Let_def split: option.split)

text \<open>
  The runner after \<open>k\<close> accepted calls since \<open>reset\<close>: the first \<open>k\<close> slots hold
  functions, the others none, and the add cursor is at slot \<open>k\<close>, or \<open>NULL\<close> when all
  twelve slots are taken.
\<close>

lemma add_actions_filled:
  assumes "linked opr" "\<not> in_operation opr"
    and "add opr = (if k < ACTION_MAX then Some k else None)"
    and "k + length xs \<le> ACTION_MAX"
  shows "fst (add_actions xs opr) = replicate (length xs) STAT_OK
     \<and> linked (snd (add_actions xs opr))
     \<and> \<not> in_operation (snd (add_actions xs opr))
     \<and> run (snd (add_actions xs opr)) = run opr
     \<and> add (snd (add_actions xs opr)) =
         (if k + length xs < ACTION_MAX then Some (k + length xs) else None)
     \<and> (\<forall>i < ACTION_MAX. func (action (snd (add_actions xs opr)) ! i) =
           (if k \<le> i \<and> i < k + length xs then Some (fst (xs ! (i - k)))
            else func (action opr ! i)))"
  using assms
proof (induction xs arbitrary: opr k)
  case Nil
  then show ?case by auto
next
  case (Cons x xs)
  from Cons.prems have k: "k < ACTION_MAX" and ad: "add opr = Some k" by auto
  define o' where "o' = snd (add_action (fst x) (snd x) opr)"
  have o: "o' = opr\<lparr>action := (action opr)[k := (action opr ! k)
              \<lparr>func := Some (fst x),
               param := (case snd x of None \<Rightarrow> param (action opr ! k)
                         | Some p \<Rightarrow> map (\<lambda>k. p ! k) [0..<PARAM_MAX])\<rparr>],
         add := nx (action opr ! k)\<rparr>"
    using Cons.prems(2) ad by (simp add: o'_def add_action_ok)
  have eq: "add_action (fst x) (snd x) opr = (STAT_OK, o')"
    using Cons.prems(2) ad by (simp add: o add_action_ok)
  have len: "length (action opr) = ACTION_MAX"
    using Cons.prems(1) by (simp add: linked_def)
  have l: "linked o'"
    using Cons.prems(1) k by (auto simp add: o linked_def nth_list_update)
  have r: "\<not> in_operation o'" "run o' = run opr"
    using Cons.prems(2) by (simp_all add: o)
  have a: "add o' = (if Suc k < ACTION_MAX then Some (Suc k) else None)"
    using Cons.prems(1) k by (simp add: o linked_def)
  have b: "Suc k + length xs \<le> ACTION_MAX"
    using Cons.prems(4) by simp
  note ih = Cons.IH [OF l r(1) a b]
  have fn: "func (action o' ! i) = (if i = k then Some (fst x) else func (action opr ! i))"
    if "i < ACTION_MAX" for i
    using that len k by (simp add: o nth_list_update)
  have unf: "add_actions (x # xs) opr =
      (STAT_OK # fst (add_actions xs o'), snd (add_actions xs o'))"
    by (simp add: eq split: prod.split)
  have c1: "fst (add_actions (x # xs) opr) = replicate (length (x # xs)) STAT_OK"
    unfolding unf using ih by simp
  have c2: "linked (snd (add_actions (x # xs) opr))"
    "\<not> in_operation (snd (add_actions (x # xs) opr))"
    "run (snd (add_actions (x # xs) opr)) = run opr"
    unfolding unf using ih r(2) by simp_all
  have c3: "add (snd (add_actions (x # xs) opr)) =
         (if k + length (x # xs) < ACTION_MAX then Some (k + length (x # xs)) else None)"
    unfolding unf using ih by simp
  have c4: "func (action (snd (add_actions (x # xs) opr)) ! i) =
           (if k \<le> i \<and> i < k + length (x # xs) then Some (fst ((x # xs) ! (i - k)))
            else func (action opr ! i))" if i: "i < ACTION_MAX" for i
  proof -
    have h: "func (action (snd (add_actions xs o')) ! i) =
           (if Suc k \<le> i \<and> i < Suc k + length xs then Some (fst (xs ! (i - Suc k)))
            else func (action o' ! i))"
      using ih i by blast
    have e: "func (action (snd (add_actions (x # xs) opr)) ! i) =
           (if Suc k \<le> i \<and> i < Suc k + length xs then Some (fst (xs ! (i - Suc k)))
            else if i = k then Some (fst x) else func (action opr ! i))"
      by (simp only: unf snd_conv h fn [OF i])
    show ?thesis
    proof (cases "i = k")
      case True
      then show ?thesis using e by simp
    next
      case False
      show ?thesis
      proof (cases "Suc k \<le> i")
        case True
        then have "(x # xs) ! (i - k) = xs ! (i - Suc k)"
          by (simp add: nth_Cons' Suc_diff_le)
        then show ?thesis using e True by simp
      next
        case False
        with \<open>i \<noteq> k\<close> have "i < k" by simp
        then show ?thesis using e by simp
      qed
    qed
  qed
  show ?case
    using c1 c2 c3 c4 by blast
qed

text \<open>
  C9 as the code has it: \<open>add_action\<close> returns \<open>STAT_COMMAND_NOT_ACCEPTED\<close> and changes
  nothing while an operation is running; it returns \<open>STAT_INPUT_EXCEEDS_MAX_LENGTH\<close> and
  changes nothing when the add cursor is \<open>NULL\<close>, which after \<open>reset\<close> is the case exactly
  when twelve calls have been accepted; otherwise it stores the function in the slot at the
  add cursor, copies the first \<open>PARAM_MAX\<close> parameters of the caller into the slot when a
  buffer is given and leaves the parameters of the slot as they are when none is given, moves
  the add cursor to the next slot and returns \<open>STAT_OK\<close>.
\<close>

theorem add_action_contract:
  "(in_operation opr \<longrightarrow> add_action f prm opr = (STAT_COMMAND_NOT_ACCEPTED, opr))
   \<and> (\<not> in_operation opr \<and> add opr = None \<longrightarrow>
        add_action f prm opr = (STAT_INPUT_EXCEEDS_MAX_LENGTH, opr))
   \<and> (\<not> in_operation opr \<and> add opr = Some i \<and> i < length (action opr) \<longrightarrow>
        (\<exists>opr'. add_action f prm opr = (STAT_OK, opr')
           \<and> func (action opr' ! i) = Some f
           \<and> param (action opr' ! i) =
               (case prm of None \<Rightarrow> param (action opr ! i)
                | Some p \<Rightarrow> map (\<lambda>k. p ! k) [0..<PARAM_MAX])
           \<and> (\<forall>j. j \<noteq> i \<longrightarrow> action opr' ! j = action opr ! j)
           \<and> length (action opr') = length (action opr)
           \<and> add opr' = nx (action opr ! i)
           \<and> run opr' = run opr \<and> in_operation opr' = in_operation opr))
   \<and> (length xs \<le> ACTION_MAX \<longrightarrow>
        fst (add_actions xs (cmOperation_reset opr0)) = replicate (length xs) STAT_OK
        \<and> add (snd (add_actions xs (cmOperation_reset opr0))) =
            (if length xs < ACTION_MAX then Some (length xs) else None))"
proof (intro conjI impI)
  assume "in_operation opr"
  then show "add_action f prm opr = (STAT_COMMAND_NOT_ACCEPTED, opr)"
    by (rule add_action_running)
next
  assume "\<not> in_operation opr \<and> add opr = None"
  then show "add_action f prm opr = (STAT_INPUT_EXCEEDS_MAX_LENGTH, opr)"
    by (simp add: add_action_full)
next
  assume h: "\<not> in_operation opr \<and> add opr = Some i \<and> i < length (action opr)"
  then have "add_action f prm opr =
      (STAT_OK,
       opr\<lparr>action := (action opr)[i := (action opr ! i)
                \<lparr>func := Some f,
                 param := (case prm of None \<Rightarrow> param (action opr ! i)
                           | Some p \<Rightarrow> map (\<lambda>k. p ! k) [0..<PARAM_MAX])\<rparr>],
           add := nx (action opr ! i)\<rparr>)"
    by (simp add: add_action_ok)
  with h show "\<exists>opr'. add_action f prm opr = (STAT_OK, opr')
           \<and> func (action opr' ! i) = Some f
           \<and> param (action opr' ! i) =
               (case prm of None \<Rightarrow> param (action opr ! i)
                | Some p \<Rightarrow> map (\<lambda>k. p ! k) [0..<PARAM_MAX])
           \<and> (\<forall>j. j \<noteq> i \<longrightarrow> action opr' ! j = action opr ! j)
           \<and> length (action opr') = length (action opr)
           \<and> add opr' = nx (action opr ! i)
           \<and> run opr' = run opr \<and> in_operation opr' = in_operation opr"
    by simp
next
  assume len: "length xs \<le> ACTION_MAX"
  have i: "idle (cmOperation_reset opr0)"
    by (rule reset_idle)
  have z: "add (cmOperation_reset opr0) = (if 0 < ACTION_MAX then Some 0 else None)"
    by (simp add: reset_cursors ACTION_MAX_def)
  have l: "0 + length xs \<le> ACTION_MAX"
    using len by simp
  note r = add_actions_filled [OF _ _ z l]
  show "fst (add_actions xs (cmOperation_reset opr0)) = replicate (length xs) STAT_OK"
    using r i by (simp add: idle_def)
  show "add (snd (add_actions xs (cmOperation_reset opr0))) =
            (if length xs < ACTION_MAX then Some (length xs) else None)"
    using r i by (simp add: idle_def)
qed

theorem add_action_contract_witness:
  "in_operation ((cm_operation_init :: action_exec_t cmOperation)\<lparr>in_operation := True\<rparr>)
   \<and> add_action Fn_cycle_exit None (cm_operation_init\<lparr>in_operation := True\<rparr>)
        = (STAT_COMMAND_NOT_ACCEPTED, cm_operation_init\<lparr>in_operation := True\<rparr>)
   \<and> \<not> in_operation ((cm_operation_init :: action_exec_t cmOperation)\<lparr>add := None\<rparr>)
   \<and> add ((cm_operation_init :: action_exec_t cmOperation)\<lparr>add := None\<rparr>) = None
   \<and> add_action Fn_cycle_exit None (cm_operation_init\<lparr>add := None\<rparr>)
        = (STAT_INPUT_EXCEEDS_MAX_LENGTH, cm_operation_init\<lparr>add := None\<rparr>)
   \<and> \<not> in_operation (cm_operation_init :: action_exec_t cmOperation)
   \<and> add (cm_operation_init :: action_exec_t cmOperation) = Some 0
   \<and> 0 < length (action (cm_operation_init :: action_exec_t cmOperation))
   \<and> fst (add_action Fn_cycle_exit (Some [1, 2, 3, 4]) cm_operation_init) = STAT_OK
   \<and> func (action (snd (add_action Fn_cycle_exit (Some [1, 2, 3, 4]) cm_operation_init)) ! 0)
        = Some Fn_cycle_exit
   \<and> param (action (snd (add_action Fn_cycle_exit (Some [1, 2, 3, 4]) cm_operation_init)) ! 0)
        = [1, 2, 3, 4]
   \<and> add (snd (add_action Fn_cycle_exit (Some [1, 2, 3, 4]) cm_operation_init)) = Some 1
   \<and> length (replicate 12 (Fn_program_stop, None :: float list option)) \<le> ACTION_MAX
   \<and> fst (add_actions (replicate 12 (Fn_program_stop, None)) (cmOperation_reset op_zero))
        = replicate 12 STAT_OK
   \<and> add (snd (add_actions (replicate 12 (Fn_program_stop, None)) (cmOperation_reset (op_zero :: action_exec_t cmOperation))))
        = None"
proof -
  let ?i = "cm_operation_init :: action_exec_t cmOperation"
  have a: "in_operation (?i\<lparr>in_operation := True\<rparr>)"
    by simp
  have b: "\<not> in_operation (?i\<lparr>add := None\<rparr>) \<and> add (?i\<lparr>add := None\<rparr>) = None"
    by (simp add: cm_operation_init_def reset_cursors)
  have c: "\<not> in_operation ?i \<and> add ?i = Some 0 \<and> 0 < length (action ?i)"
    by (simp add: cm_operation_init_def reset_cursors reset_length ACTION_MAX_def)
  have d: "length (replicate 12 (Fn_program_stop, None :: float list option)) \<le> ACTION_MAX"
    by (simp add: ACTION_MAX_def)
  have n: "nx (action ?i ! 0) = Some 1"
    by (simp add: cm_operation_init_def reset_action_nth ACTION_MAX_def)
  have m: "map (\<lambda>k. [1, 2, 3, 4 :: float] ! k) [0..<PARAM_MAX] = [1, 2, 3, 4]"
    by (simp add: PARAM_MAX_def upt_rec)
  show ?thesis
    using add_action_contract [where opr = "?i\<lparr>in_operation := True\<rparr>" and f = Fn_cycle_exit
        and prm = None and i = 0 and xs = "[]" and ?opr0.0 = op_zero]
      add_action_contract [where opr = "?i\<lparr>add := None\<rparr>" and f = Fn_cycle_exit
        and prm = None and i = 0 and xs = "[]" and ?opr0.0 = op_zero]
      add_action_contract [where opr = ?i and f = Fn_cycle_exit
        and prm = "Some [1, 2, 3, 4]" and i = 0
        and xs = "replicate 12 (Fn_program_stop, None)" and ?opr0.0 = op_zero]
      a b c d
    by (auto simp add: n m ACTION_MAX_def)
qed

text \<open>
  A slot that held the parameters 1, 2, 3, 4 keeps them through \<open>reset\<close>, and a later
  \<open>add_action\<close> without parameters leaves them in the slot: they are not zero-filled.
\<close>

theorem add_action_zero_fill_counterexample:
  "fst (add_action Fn_cycle_exit None
          (cmOperation_reset (snd (add_action Fn_program_stop (Some [1, 2, 3, 4]) cm_operation_init))))
     = STAT_OK
   \<and> param (action (snd (add_action Fn_cycle_exit None
          (cmOperation_reset (snd (add_action Fn_program_stop (Some [1, 2, 3, 4]) cm_operation_init))))) ! 0)
     = [1, 2, 3, 4]
   \<and> param (action (snd (add_action Fn_cycle_exit None
          (cmOperation_reset (snd (add_action Fn_program_stop (Some [1, 2, 3, 4]) cm_operation_init))))) ! 0)
     \<noteq> replicate PARAM_MAX 0"
  by code_simp

subsection \<open>Running an idle runner, and one queued action\<close>

lemma run_operation_noop:
  "run opr = Some i \<Longrightarrow> func (action opr ! i) = None \<Longrightarrow>
   run_operation call opr w = Some (STAT_NOOP, opr, w)"
  by (simp add: run_operation_def)

lemma idle_run_noop: "idle opr \<Longrightarrow> run_operation call opr w = Some (STAT_NOOP, opr, w)"
  by (simp add: idle_def run_operation_def ACTION_MAX_def)

lemma idle_add_action:
  assumes "idle opr"
  shows "add_action f None opr =
     (STAT_OK, opr\<lparr>action := (action opr)[0 := (action opr ! 0)\<lparr>func := Some f\<rparr>],
                  add := Some 1\<rparr>)"
proof -
  have "nx (action opr ! 0) = Some 1"
    using assms by (simp add: idle_def linked_def ACTION_MAX_def)
  then show ?thesis
    using assms by (simp add: idle_def add_action_ok)
qed

lemma reset_add_update: "cmOperation_reset (opr\<lparr>add := a\<rparr>) = cmOperation_reset opr"
  by (simp add: cmOperation_reset_def Let_def)

lemma reset_func_update:
  "cmOperation_reset (opr\<lparr>action := (action opr)[i := (action opr ! i)\<lparr>func := g\<rparr>]\<rparr>)
     = cmOperation_reset opr"
proof -
  have "cmAction_reset (((action opr)[i := (action opr ! i)\<lparr>func := g\<rparr>]) ! j)
          = cmAction_reset (action opr ! j)" for j
    by (cases "j = i"; cases "i < length (action opr)")
      (simp_all add: cmAction_reset_def list_update_beyond)
  then show ?thesis
    by (simp add: cmOperation_reset_def Let_def)
qed

lemma run_single_ok:
  assumes i: "idle opr" and c: "call f (param (action opr ! 0)) w = (STAT_OK, w')"
  shows "run_operation call (snd (add_action f None opr)) w =
           Some (STAT_OK, cmOperation_reset opr, w')"
proof -
  let ?o = "opr\<lparr>action := (action opr)[0 := (action opr ! 0)\<lparr>func := Some f\<rparr>], add := Some 1\<rparr>"
  have len: "length (action opr) = 12"
    using i by (simp add: idle_def linked_def ACTION_MAX_def)
  have n0: "nx (action opr ! 0) = Some 1"
    using i by (simp add: idle_def linked_def ACTION_MAX_def)
  have f1: "func (action opr ! Suc 0) = None"
    using i by (simp add: idle_def ACTION_MAX_def)
  have r: "run opr = Some 0"
    using i by (simp add: idle_def)
  have "cmOperation_reset (?o\<lparr>in_operation := True, run := Some 1\<rparr>)
          = cmOperation_reset (opr\<lparr>action := (action opr)[0 := (action opr ! 0)\<lparr>func := Some f\<rparr>]\<rparr>)"
    by (simp add: cmOperation_reset_def Let_def)
  then have rs: "cmOperation_reset (?o\<lparr>in_operation := True, run := Some 1\<rparr>) = cmOperation_reset opr"
    by (simp only: reset_func_update)
  have "run_loop call (?o\<lparr>in_operation := True\<rparr>) w = Some (STAT_OK, cmOperation_reset opr, w')"
    by (subst run_loop.simps) (simp add: r len c n0 f1 rs [simplified] Let_def)
  then show ?thesis
    using len r by (simp add: idle_add_action [OF i] run_operation_def)
qed


subsection \<open>A requested hold that is not promoted\<close>

lemma op_run_idle: "idle (op s) \<Longrightarrow> op_run_operation u s = Some (STAT_NOOP, s)"
  by (simp add: op_run_operation_def idle_run_noop)

lemma op_run_sync:
  assumes "idle opr" "op s = snd (add_action Fn_feedhold_with_sync None opr)"
  shows "op_run_operation u s = Some (STAT_OK, s\<lparr>op := cmOperation_reset opr\<rparr>)"
proof -
  have "call_action u Fn_feedhold_with_sync (param (action opr ! 0)) (glob s) = (STAT_OK, glob s)"
    by (simp add: call_action_def feedhold_with_sync_def)
  from run_single_ok [where call = "call_action u" and f = Fn_feedhold_with_sync, OF assms(1) this]
  show ?thesis
    by (simp add: op_run_operation_def assms(2))
qed

lemma initiate_queue_flush_frame:
  "op (initiate_queue_flush s) = op s"
  "hold_state (cm1 (glob (initiate_queue_flush s))) = hold_state (cm1 (glob s))"
  "motion_state (cm1 (glob (initiate_queue_flush s))) = motion_state (cm1 (glob s))"
  "cycle_state (cm1 (glob (initiate_queue_flush s))) = cycle_state (cm1 (glob s))"
  "hold_state (cm2 (glob (initiate_queue_flush s))) = hold_state (cm2 (glob s))"
  "motion_state (cm2 (glob (initiate_queue_flush s))) = motion_state (cm2 (glob s))"
  by (simp_all add: initiate_queue_flush_def cm_queue_flush_def Let_def machine_assign_def
      the_machine_def planner_reset_def cm_abort_arc_def emit_def planner_assign_def
      split: cm_ptr.split mp_ptr.split)

text \<open>The callback after its first two steps, when the primary hold state is requested.\<close>

lemma callback_tail:
  assumes h: "hold_state (cm1 (glob s)) = FEEDHOLD_REQUESTED"
    and r: "idle (op s) \<or> (\<exists>opr. idle opr \<and> op s = snd (add_action Fn_feedhold_with_sync None opr))"
  shows "\<exists>st opr'.
      (case (if cycle_state (cm1 (glob s)) = CYCLE_START_REQUESTED
             then initiate_cycle_start u s else Some s) of
         None \<Rightarrow> None
       | Some s3 \<Rightarrow> op_run_operation u s3) = Some (st, s\<lparr>op := opr'\<rparr>)
      \<and> (st = STAT_NOOP \<or> st = STAT_OK) \<and> idle opr'"
proof -
  have ics: "initiate_cycle_start u s = map_option snd (op_run_operation u s)"
    using h by (simp add: initiate_cycle_start_def)
  from r show ?thesis
  proof
    assume i: "idle (op s)"
    show ?thesis
      using i
      by (intro exI [of _ STAT_NOOP] exI [of _ "op s"]) (simp add: ics op_run_idle)
  next
    assume "\<exists>opr. idle opr \<and> op s = snd (add_action Fn_feedhold_with_sync None opr)"
    then obtain opr where o: "idle opr" "op s = snd (add_action Fn_feedhold_with_sync None opr)"
      by blast
    have i: "idle (op (s\<lparr>op := cmOperation_reset opr\<rparr>))"
      by (simp add: reset_idle)
    have e: "s\<lparr>op := cmOperation_reset opr, op := cmOperation_reset opr\<rparr>
               = s\<lparr>op := cmOperation_reset opr\<rparr>"
      by simp
    show ?thesis
    proof (cases "cycle_state (cm1 (glob s)) = CYCLE_START_REQUESTED")
      case True
      then show ?thesis
        using op_run_idle [OF i, of u] reset_idle [of opr]
        by (intro exI [of _ STAT_NOOP] exI [of _ "cmOperation_reset opr"])
          (simp add: ics op_run_sync [OF o])
    next
      case False
      then show ?thesis
        using reset_idle [of opr]
        by (intro exI [of _ STAT_OK] exI [of _ "cmOperation_reset opr"])
          (simp add: op_run_sync [OF o])
    qed
  qed
qed

lemma tick_requested_stationary:
  assumes h: "hold_state (cm1 (glob s)) = FEEDHOLD_REQUESTED"
    and m: "motion_state (cm1 (glob s)) \<noteq> MOTION_RUN"
    and r: "idle (op s)
            \<or> (hold_state (cm2 (glob s)) \<noteq> FEEDHOLD_REQUESTED
               \<and> (\<exists>opr. idle opr \<and> op s = snd (add_action Fn_feedhold_with_sync None opr)))"
  shows "\<exists>st s'. cm_operation_sequencing_callback u s = Some (st, s')
      \<and> (st = STAT_NOOP \<or> st = STAT_OK)
      \<and> hold_state (cm1 (glob s')) = FEEDHOLD_REQUESTED
      \<and> motion_state (cm1 (glob s')) = motion_state (cm1 (glob s))
      \<and> idle (op s')"
proof -
  define s1 where "s1 = initiate_feedhold s"
  have s1: "hold_state (cm1 (glob s1)) = FEEDHOLD_REQUESTED"
    "motion_state (cm1 (glob s1)) = motion_state (cm1 (glob s))"
    "idle (op s1) \<or> (\<exists>opr. idle opr \<and> op s1 = snd (add_action Fn_feedhold_with_sync None opr))"
    using h m r by (auto simp add: s1_def initiate_feedhold_def op_add_action_def Let_def)
  define s2 where
    "s2 = (if flush_state (cm1 (glob s1)) = FLUSH_REQUESTED then initiate_queue_flush s1 else s1)"
  have s2: "hold_state (cm1 (glob s2)) = FEEDHOLD_REQUESTED"
    "motion_state (cm1 (glob s2)) = motion_state (cm1 (glob s))"
    "idle (op s2) \<or> (\<exists>opr. idle opr \<and> op s2 = snd (add_action Fn_feedhold_with_sync None opr))"
    using s1 by (simp_all add: s2_def initiate_queue_flush_frame)
  have cb: "cm_operation_sequencing_callback u s =
      (case (if cycle_state (cm1 (glob s2)) = CYCLE_START_REQUESTED
             then initiate_cycle_start u s2 else Some s2) of
         None \<Rightarrow> None
       | Some s3 \<Rightarrow> op_run_operation u s3)"
    using h by (simp add: cm_operation_sequencing_callback_def Let_def s1_def s2_def)
  from callback_tail [OF s2(1) s2(3), of u] obtain st opr' where
    t: "cm_operation_sequencing_callback u s = Some (st, s2\<lparr>op := opr'\<rparr>)"
      "st = STAT_NOOP \<or> st = STAT_OK" "idle opr'"
    unfolding cb by blast
  show ?thesis
    using t s2 by auto
qed

lemma ticks_requested_stationary:
  assumes "hold_state (cm1 (glob s)) = FEEDHOLD_REQUESTED"
    and "motion_state (cm1 (glob s)) \<noteq> MOTION_RUN"
    and "idle (op s)
            \<or> (hold_state (cm2 (glob s)) \<noteq> FEEDHOLD_REQUESTED
               \<and> (\<exists>opr. idle opr \<and> op s = snd (add_action Fn_feedhold_with_sync None opr)))"
  shows "\<exists>sts s'. ticks u n s = Some (sts, s')
      \<and> set sts \<subseteq> {STAT_NOOP, STAT_OK}
      \<and> hold_state (cm1 (glob s')) = FEEDHOLD_REQUESTED"
  using assms
proof (induction n arbitrary: s)
  case 0
  then show ?case by simp
next
  case (Suc n)
  from tick_requested_stationary [OF Suc.prems, of u] obtain st s' where
    t: "cm_operation_sequencing_callback u s = Some (st, s')"
      "st = STAT_NOOP \<or> st = STAT_OK"
      "hold_state (cm1 (glob s')) = FEEDHOLD_REQUESTED"
      "motion_state (cm1 (glob s')) = motion_state (cm1 (glob s))"
      "idle (op s')"
    by blast
  have m: "motion_state (cm1 (glob s')) \<noteq> MOTION_RUN"
    using t(4) Suc.prems(2) by simp
  from Suc.IH [OF t(3) m disjI1 [OF t(5)]] obtain sts s'' where
    i: "ticks u n s' = Some (sts, s'')" "set sts \<subseteq> {STAT_NOOP, STAT_OK}"
      "hold_state (cm1 (glob s'')) = FEEDHOLD_REQUESTED"
    by blast
  show ?case
    using t(1,2) i by auto
qed


lemma tick_requested_secondary:
  assumes "hold_state (cm2 (glob s)) = FEEDHOLD_REQUESTED"
    and "motion_state (cm2 (glob s)) \<noteq> MOTION_RUN"
    and "hold_state (cm1 (glob s)) = FEEDHOLD_HOLD"
    and "cycle_state (cm1 (glob s)) \<noteq> CYCLE_START_REQUESTED"
    and "idle (op s)"
  shows "\<exists>s'. cm_operation_sequencing_callback u s = Some (STAT_NOOP, s')
      \<and> hold_state (cm2 (glob s')) = FEEDHOLD_REQUESTED
      \<and> motion_state (cm2 (glob s')) \<noteq> MOTION_RUN
      \<and> hold_state (cm1 (glob s')) = FEEDHOLD_HOLD
      \<and> cycle_state (cm1 (glob s')) \<noteq> CYCLE_START_REQUESTED
      \<and> idle (op s')"
proof -
  define s2 where
    "s2 = (if flush_state (cm1 (glob s)) = FLUSH_REQUESTED then initiate_queue_flush s else s)"
  have s2: "hold_state (cm2 (glob s2)) = FEEDHOLD_REQUESTED"
    "motion_state (cm2 (glob s2)) \<noteq> MOTION_RUN"
    "hold_state (cm1 (glob s2)) = FEEDHOLD_HOLD"
    "cycle_state (cm1 (glob s2)) \<noteq> CYCLE_START_REQUESTED"
    "idle (op s2)"
    using assms by (simp_all add: s2_def initiate_queue_flush_frame)
  have "cm_operation_sequencing_callback u s = op_run_operation u s2"
    using assms(3) s2(4) by (simp add: cm_operation_sequencing_callback_def Let_def s2_def)
  then have "cm_operation_sequencing_callback u s = Some (STAT_NOOP, s2)"
    using s2(5) by (simp add: op_run_idle)
  then show ?thesis
    using s2 by simp
qed

lemma ticks_requested_secondary:
  assumes "hold_state (cm2 (glob s)) = FEEDHOLD_REQUESTED"
    and "motion_state (cm2 (glob s)) \<noteq> MOTION_RUN"
    and "hold_state (cm1 (glob s)) = FEEDHOLD_HOLD"
    and "cycle_state (cm1 (glob s)) \<noteq> CYCLE_START_REQUESTED"
    and "idle (op s)"
  shows "\<exists>sts s'. ticks u n s = Some (sts, s')
      \<and> set sts \<subseteq> {STAT_NOOP}
      \<and> hold_state (cm2 (glob s')) = FEEDHOLD_REQUESTED"
  using assms
proof (induction n arbitrary: s)
  case 0
  then show ?case by simp
next
  case (Suc n)
  from tick_requested_secondary [OF Suc.prems, of u] obtain s' where
    t: "cm_operation_sequencing_callback u s = Some (STAT_NOOP, s')"
      "hold_state (cm2 (glob s')) = FEEDHOLD_REQUESTED"
      "motion_state (cm2 (glob s')) \<noteq> MOTION_RUN"
      "hold_state (cm1 (glob s')) = FEEDHOLD_HOLD"
      "cycle_state (cm1 (glob s')) \<noteq> CYCLE_START_REQUESTED"
      "idle (op s')"
    by blast
  from Suc.IH [OF t(2-6)] obtain sts s'' where
    i: "ticks u n s' = Some (sts, s'')" "set sts \<subseteq> {STAT_NOOP}"
      "hold_state (cm2 (glob s'')) = FEEDHOLD_REQUESTED"
    by blast
  show ?case
    using t(1) i by auto
qed

lemma request_on_stationary_primary:
  assumes "cm (glob s) = CM1" "motion_state (cm1 (glob s)) \<noteq> MOTION_RUN" "idle (op s)"
  shows "hold_state (cm1 (glob (cm_request_feedhold t f s))) = FEEDHOLD_REQUESTED"
    and "motion_state (cm1 (glob (cm_request_feedhold t f s))) \<noteq> MOTION_RUN"
    and "idle (op (cm_request_feedhold t f s))
            \<or> (hold_state (cm2 (glob (cm_request_feedhold t f s))) \<noteq> FEEDHOLD_REQUESTED
               \<and> (\<exists>opr. idle opr
                    \<and> op (cm_request_feedhold t f s) = snd (add_action Fn_feedhold_with_sync None opr)))"
  using assms
  by (auto simp add: cm_request_feedhold_def cm_assign_def initiate_feedhold_def
      op_add_action_def Let_def)

lemma request_on_stationary_secondary:
  assumes "cm (glob s) = CM2" "motion_state (cm2 (glob s)) \<noteq> MOTION_RUN"
    "hold_state (cm1 (glob s)) = FEEDHOLD_HOLD"
  shows "cm_request_feedhold t f s =
     s\<lparr>glob := (glob s)\<lparr>cm2 := (cm2 (glob s))\<lparr>hold_type := t, hold_final := f,
                                              hold_state := FEEDHOLD_REQUESTED\<rparr>\<rparr>\<rparr>"
  using assms
  by (simp add: cm_request_feedhold_def cm_assign_def initiate_feedhold_def Let_def)

text \<open>
  C8: a feedhold requested while the motion of the active machine is not running sets the
  hold state of that machine to requested; on every later tick the callback returns without
  an error status and the hold state is still requested. Stated for a request on the primary
  machine with an idle runner, and for a request on the secondary machine while the primary
  holds, no cycle start is requested and the runner is idle.
\<close>

theorem stationary_feedhold_request:
  "(cm (glob s) = CM1 \<and> motion_state (cm1 (glob s)) \<noteq> MOTION_RUN \<and> idle (op s) \<longrightarrow>
      hold_state (cm1 (glob (cm_request_feedhold t f s))) = FEEDHOLD_REQUESTED
      \<and> (\<exists>sts s'. ticks u n (cm_request_feedhold t f s) = Some (sts, s')
            \<and> set sts \<subseteq> {STAT_NOOP, STAT_OK}
            \<and> hold_state (cm1 (glob s')) = FEEDHOLD_REQUESTED))
   \<and> (cm (glob s) = CM2 \<and> motion_state (cm2 (glob s)) \<noteq> MOTION_RUN
        \<and> hold_state (cm1 (glob s)) = FEEDHOLD_HOLD
        \<and> cycle_state (cm1 (glob s)) \<noteq> CYCLE_START_REQUESTED \<and> idle (op s) \<longrightarrow>
      hold_state (cm2 (glob (cm_request_feedhold t f s))) = FEEDHOLD_REQUESTED
      \<and> (\<exists>sts s'. ticks u n (cm_request_feedhold t f s) = Some (sts, s')
            \<and> set sts \<subseteq> {STAT_NOOP}
            \<and> hold_state (cm2 (glob s')) = FEEDHOLD_REQUESTED))"
proof (intro conjI impI)
  assume h: "cm (glob s) = CM1 \<and> motion_state (cm1 (glob s)) \<noteq> MOTION_RUN \<and> idle (op s)"
  then have a: "cm (glob s) = CM1" "motion_state (cm1 (glob s)) \<noteq> MOTION_RUN" "idle (op s)"
    by simp_all
  show "hold_state (cm1 (glob (cm_request_feedhold t f s))) = FEEDHOLD_REQUESTED"
    by (rule request_on_stationary_primary [OF a])
  show "\<exists>sts s'. ticks u n (cm_request_feedhold t f s) = Some (sts, s')
            \<and> set sts \<subseteq> {STAT_NOOP, STAT_OK}
            \<and> hold_state (cm1 (glob s')) = FEEDHOLD_REQUESTED"
    by (rule ticks_requested_stationary [OF request_on_stationary_primary [OF a]])
next
  assume h: "cm (glob s) = CM2 \<and> motion_state (cm2 (glob s)) \<noteq> MOTION_RUN
        \<and> hold_state (cm1 (glob s)) = FEEDHOLD_HOLD
        \<and> cycle_state (cm1 (glob s)) \<noteq> CYCLE_START_REQUESTED \<and> idle (op s)"
  then have r: "cm_request_feedhold t f s =
     s\<lparr>glob := (glob s)\<lparr>cm2 := (cm2 (glob s))\<lparr>hold_type := t, hold_final := f,
                                              hold_state := FEEDHOLD_REQUESTED\<rparr>\<rparr>\<rparr>"
    by (simp add: request_on_stationary_secondary)
  show "hold_state (cm2 (glob (cm_request_feedhold t f s))) = FEEDHOLD_REQUESTED"
    by (simp add: r)
  show "\<exists>sts s'. ticks u n (cm_request_feedhold t f s) = Some (sts, s')
            \<and> set sts \<subseteq> {STAT_NOOP}
            \<and> hold_state (cm2 (glob s')) = FEEDHOLD_REQUESTED"
    using h by (intro ticks_requested_secondary) (simp_all add: r)
qed

theorem stationary_feedhold_request_witness:
  "cm (glob s0_stopped) = CM1 \<and> motion_state (cm1 (glob s0_stopped)) \<noteq> MOTION_RUN
   \<and> idle (op s0_stopped)
   \<and> hold_state (cm1 (glob (cm_request_feedhold FEEDHOLD_TYPE_ACTIONS FEEDHOLD_FINAL_CYCLE s0_stopped)))
        = FEEDHOLD_REQUESTED
   \<and> (\<exists>sts s'. ticks u0 3 (cm_request_feedhold FEEDHOLD_TYPE_ACTIONS FEEDHOLD_FINAL_CYCLE s0_stopped)
          = Some (sts, s')
        \<and> set sts \<subseteq> {STAT_NOOP, STAT_OK}
        \<and> hold_state (cm1 (glob s')) = FEEDHOLD_REQUESTED)
   \<and> cm (glob (s0_in_hold\<lparr>glob := (glob s0_in_hold)\<lparr>cm2 := cm0\<lparr>motion_state := MOTION_STOP\<rparr>\<rparr>\<rparr>)) = CM2
   \<and> hold_state (cm2 (glob (cm_request_feedhold FEEDHOLD_TYPE_ACTIONS FEEDHOLD_FINAL_CYCLE
        (s0_in_hold\<lparr>glob := (glob s0_in_hold)\<lparr>cm2 := cm0\<lparr>motion_state := MOTION_STOP\<rparr>\<rparr>\<rparr>))))
        = FEEDHOLD_REQUESTED
   \<and> (\<exists>sts s'. ticks u0 3 (cm_request_feedhold FEEDHOLD_TYPE_ACTIONS FEEDHOLD_FINAL_CYCLE
        (s0_in_hold\<lparr>glob := (glob s0_in_hold)\<lparr>cm2 := cm0\<lparr>motion_state := MOTION_STOP\<rparr>\<rparr>\<rparr>))
          = Some (sts, s')
        \<and> set sts \<subseteq> {STAT_NOOP}
        \<and> hold_state (cm2 (glob s')) = FEEDHOLD_REQUESTED)"
proof -
  let ?p = s0_stopped
  let ?q = "s0_in_hold\<lparr>glob := (glob s0_in_hold)\<lparr>cm2 := cm0\<lparr>motion_state := MOTION_STOP\<rparr>\<rparr>\<rparr>"
  have a: "cm (glob ?p) = CM1 \<and> motion_state (cm1 (glob ?p)) \<noteq> MOTION_RUN \<and> idle (op ?p)"
    by (simp add: s0_stopped_def example_defs cm_operation_init_def reset_idle)
  have b: "cm (glob ?q) = CM2 \<and> motion_state (cm2 (glob ?q)) \<noteq> MOTION_RUN
        \<and> hold_state (cm1 (glob ?q)) = FEEDHOLD_HOLD
        \<and> cycle_state (cm1 (glob ?q)) \<noteq> CYCLE_START_REQUESTED \<and> idle (op ?q)"
    by (simp add: s0_in_hold_def example_defs cm_operation_init_def reset_idle)
  show ?thesis
    using stationary_feedhold_request [of ?p FEEDHOLD_TYPE_ACTIONS FEEDHOLD_FINAL_CYCLE u0 3]
      stationary_feedhold_request [of ?q FEEDHOLD_TYPE_ACTIONS FEEDHOLD_FINAL_CYCLE u0 3]
      a b
    by simp
qed

subsection \<open>A feedhold requested during a hold\<close>

text \<open>
  A request made while the runner is running an operation: \<open>add_action\<close> refuses the
  sync-only action and \<open>_initiate_feedhold\<close> ignores the status, so nothing is queued, and
  the hold state of the secondary machine is sync all the same.
\<close>

lemma nested_feedhold_request_not_accepted:
  assumes "hold_state (cm1 (glob s)) = FEEDHOLD_HOLD" "cm (glob s) = CM2"
    and "motion_state (cm2 (glob s)) = MOTION_RUN" "in_operation (op s)"
  shows "cm_request_feedhold t f s =
          s\<lparr>glob := (glob s)\<lparr>cm2 := (cm2 (glob s))\<lparr>hold_type := t, hold_final := f,
                                                   hold_state := FEEDHOLD_SYNC\<rparr>\<rparr>\<rparr>"
  using assms
  by (simp add: cm_request_feedhold_def cm_assign_def initiate_feedhold_def op_add_action_def
      Let_def add_action_running)




subsection \<open>Queue flush\<close>

text \<open>
  C6, at a machine in motion with no hold (primary hold state off): the request sets the flush
  state of the primary machine to requested, and the next tick runs the flush: the planner of
  the primary machine is reset and the flush state is \<open>FLUSH_WAS_RUN\<close>.
\<close>

theorem queue_flush_without_hold:
  "hold_state (cm1 (glob s0)) = FEEDHOLD_OFF
   \<and> flush_state (cm1 (glob s0)) = FLUSH_OFF
   \<and> queue (mp1 (glob s0)) = [MOVE]
   \<and> flush_state (cm1 (glob (cm_request_queue_flush s0))) = FLUSH_REQUESTED
   \<and> cm_operation_sequencing_callback u0 (cm_request_queue_flush s0) \<noteq> None
   \<and> fst (the (cm_operation_sequencing_callback u0 (cm_request_queue_flush s0))) = STAT_NOOP
   \<and> hold_state (cm1 (glob (snd (the (cm_operation_sequencing_callback u0 (cm_request_queue_flush s0))))))
        = FEEDHOLD_OFF
   \<and> flush_state (cm1 (glob (snd (the (cm_operation_sequencing_callback u0 (cm_request_queue_flush s0))))))
        = FLUSH_WAS_RUN
   \<and> queue (mp1 (glob (snd (the (cm_operation_sequencing_callback u0 (cm_request_queue_flush s0))))))
        = []
   \<and> trace (glob (snd (the (cm_operation_sequencing_callback u0 (cm_request_queue_flush s0)))))
        = [Cm_abort_arc CM1, Planner_reset MP1]"
  by code_simp

text \<open>
  C5, at a machine in motion: a feedhold is requested and initiated (primary hold state sync),
  then a queue flush is requested. The next tick runs the flush although the hold state is
  sync, not hold: the flush state goes from requested to \<open>FLUSH_WAS_RUN\<close> and the planner
  is reset. With the secondary machine active during a hold, the request is written to the
  secondary machine and the ticks never run a flush.
\<close>

theorem queue_flush_before_hold:
  "hold_state (cm1 (glob (cm_request_queue_flush
        (cm_request_feedhold FEEDHOLD_TYPE_ACTIONS FEEDHOLD_FINAL_CYCLE s0)))) = FEEDHOLD_SYNC
   \<and> flush_state (cm1 (glob (cm_request_queue_flush
        (cm_request_feedhold FEEDHOLD_TYPE_ACTIONS FEEDHOLD_FINAL_CYCLE s0)))) = FLUSH_REQUESTED
   \<and> cm_operation_sequencing_callback u0 (cm_request_queue_flush
        (cm_request_feedhold FEEDHOLD_TYPE_ACTIONS FEEDHOLD_FINAL_CYCLE s0)) \<noteq> None
   \<and> fst (the (cm_operation_sequencing_callback u0 (cm_request_queue_flush
        (cm_request_feedhold FEEDHOLD_TYPE_ACTIONS FEEDHOLD_FINAL_CYCLE s0)))) = STAT_EAGAIN
   \<and> hold_state (cm1 (glob (snd (the (cm_operation_sequencing_callback u0 (cm_request_queue_flush
        (cm_request_feedhold FEEDHOLD_TYPE_ACTIONS FEEDHOLD_FINAL_CYCLE s0))))))) = FEEDHOLD_SYNC
   \<and> flush_state (cm1 (glob (snd (the (cm_operation_sequencing_callback u0 (cm_request_queue_flush
        (cm_request_feedhold FEEDHOLD_TYPE_ACTIONS FEEDHOLD_FINAL_CYCLE s0))))))) = FLUSH_WAS_RUN
   \<and> queue (mp1 (glob (snd (the (cm_operation_sequencing_callback u0 (cm_request_queue_flush
        (cm_request_feedhold FEEDHOLD_TYPE_ACTIONS FEEDHOLD_FINAL_CYCLE s0))))))) = []
   \<and> trace (glob (snd (the (cm_operation_sequencing_callback u0 (cm_request_queue_flush
        (cm_request_feedhold FEEDHOLD_TYPE_ACTIONS FEEDHOLD_FINAL_CYCLE s0))))))
        = [Cm_abort_arc CM1, Planner_reset MP1]
   \<and> hold_state (cm1 (glob s0_in_hold)) = FEEDHOLD_HOLD
   \<and> flush_state (cm1 (glob (cm_request_queue_flush s0_in_hold))) = FLUSH_OFF
   \<and> flush_state (cm2 (glob (cm_request_queue_flush s0_in_hold))) = FLUSH_REQUESTED
   \<and> ticks u0 3 (cm_request_queue_flush s0_in_hold) \<noteq> None
   \<and> flush_state (cm1 (glob (snd (the (ticks u0 3 (cm_request_queue_flush s0_in_hold))))))
        = FLUSH_OFF
   \<and> flush_state (cm2 (glob (snd (the (ticks u0 3 (cm_request_queue_flush s0_in_hold))))))
        = FLUSH_REQUESTED
   \<and> trace (glob (snd (the (ticks u0 3 (cm_request_queue_flush s0_in_hold))))) = []"
  by code_simp

subsection \<open>The contract of the runner\<close>

lemma queued_Suc:
  "queued opr r (Suc n) =
     (the (func (action opr ! r)), param (action opr ! r)) # queued opr (Suc r) n"
  by (simp add: queued_def upt_conv_Cons del: upt_Suc)

lemma queued_run_update: "queued (opr\<lparr>run := x\<rparr>) r n = queued opr r n"
  by (simp add: queued_def)

lemma run_loop_queued:
  assumes "linked opr" "run opr = Some r" "r + Suc n \<le> ACTION_MAX"
    and "\<forall>i < Suc n. func (action opr ! (r + i)) \<noteq> None"
    and "r + Suc n < ACTION_MAX \<longrightarrow> func (action opr ! (r + Suc n)) = None"
  shows "run_loop call opr w =
     (case exec_actions call (queued opr r (Suc n)) w of
        (st, k, w') \<Rightarrow>
          if st = STAT_OK then
            (if r + Suc n < ACTION_MAX then Some (STAT_OK, cmOperation_reset opr, w') else None)
          else if st = STAT_EAGAIN then Some (STAT_EAGAIN, opr\<lparr>run := Some (r + k)\<rparr>, w')
          else Some (st, cmOperation_reset opr, w'))"
  using assms
proof (induction n arbitrary: opr r w)
  case 0
  from "0.prems"(4) obtain f where f: "func (action opr ! r) = Some f"
    by force
  have r: "r < ACTION_MAX" using "0.prems"(3) by simp
  have nx: "nx (action opr ! r) = (if Suc r < ACTION_MAX then Some (Suc r) else None)"
    using "0.prems"(1) r by (simp add: linked_def)
  obtain st w1 where c: "call f (param (action opr ! r)) w = (st, w1)"
    by (cases "call f (param (action opr ! r)) w")
  have id: "opr\<lparr>run := Some r\<rparr> = opr"
    using "0.prems"(2) by simp
  show ?case
  proof (cases "Suc r < ACTION_MAX")
    case True
    then have e: "func (action opr ! Suc r) = None"
      using "0.prems"(5) by simp
    show ?thesis
      by (subst run_loop.simps)
        (simp add: "0.prems"(2) f c nx True e queued_Suc queued_def Let_def reset_run_update id)
  next
    case False
    show ?thesis
      by (subst run_loop.simps)
        (simp add: "0.prems"(2) f c nx False queued_Suc queued_def Let_def id)
  qed
next
  case (Suc n)
  from Suc.prems(4) obtain f where f: "func (action opr ! r) = Some f"
    by force
  have r: "Suc r < ACTION_MAX" using Suc.prems(3) by simp
  have nx: "nx (action opr ! r) = Some (Suc r)"
    using Suc.prems(1) r by (simp add: linked_def)
  obtain st w1 where c: "call f (param (action opr ! r)) w = (st, w1)"
    by (cases "call f (param (action opr ! r)) w")
  have id: "opr\<lparr>run := Some r\<rparr> = opr"
    using Suc.prems(2) by simp
  let ?o = "opr\<lparr>run := Some (Suc r)\<rparr>"
  have e: "func (action opr ! Suc r) \<noteq> None"
    using Suc.prems(4) [rule_format, of 1] by simp
  have p1: "linked ?o" "run ?o = Some (Suc r)"
    using Suc.prems(1) by (simp_all add: linked_def)
  have p3: "Suc r + Suc n \<le> ACTION_MAX"
    using Suc.prems(3) by simp
  have p4: "\<forall>i < Suc n. func (action ?o ! (Suc r + i)) \<noteq> None"
    using Suc.prems(4) by (auto dest: spec [where x = "Suc i" for i])
  have p5: "Suc r + Suc n < ACTION_MAX \<longrightarrow> func (action ?o ! (Suc r + Suc n)) = None"
    using Suc.prems(5) by simp
  note ih = Suc.IH [OF p1 p3 p4 p5, of w1]
  have lt: "Suc (Suc (r + n)) < ACTION_MAX \<longleftrightarrow> r + Suc (Suc n) < ACTION_MAX"
    by simp
  show ?case
    apply (subst run_loop.simps)
    apply (subst queued_Suc)
    apply (simp add: Suc.prems(2) f c nx e Let_def id ih queued_run_update reset_run_update
        split: prod.split)
    done
qed


lemma run_operation_queued:
  assumes "linked opr" "run opr = Some r" "r + Suc n \<le> ACTION_MAX"
    and "\<forall>i < Suc n. func (action opr ! (r + i)) \<noteq> None"
    and "r + Suc n < ACTION_MAX \<longrightarrow> func (action opr ! (r + Suc n)) = None"
  shows "run_operation call opr w =
     (case exec_actions call (queued opr r (Suc n)) w of
        (st, k, w') \<Rightarrow>
          if st = STAT_OK then
            (if r + Suc n < ACTION_MAX then Some (STAT_OK, cmOperation_reset opr, w') else None)
          else if st = STAT_EAGAIN then
            Some (STAT_EAGAIN, opr\<lparr>in_operation := True, run := Some (r + k)\<rparr>, w')
          else Some (st, cmOperation_reset opr, w'))"
proof -
  let ?o = "opr\<lparr>in_operation := True\<rparr>"
  from assms(4) [rule_format, of 0] obtain g where f: "func (action opr ! r) = Some g"
    by auto
  have a: "linked ?o" "run ?o = Some r"
    using assms(1,2) by (simp_all add: linked_def)
  have b: "\<forall>i < Suc n. func (action ?o ! (r + i)) \<noteq> None"
    using assms(4) by simp
  have c: "r + Suc n < ACTION_MAX \<longrightarrow> func (action ?o ! (r + Suc n)) = None"
    using assms(5) by simp
  have q: "queued ?o r (Suc n) = queued opr r (Suc n)"
    by (simp add: queued_def)
  have "run_operation call opr w = run_loop call ?o w"
    using assms(2) f by (simp add: run_operation_def)
  then show ?thesis
    by (simp only: run_loop_queued [OF a assms(3) b c] q reset_in_operation_update)
qed

lemma exec_actions_count:
  "exec_actions call as w = (st, k, w') \<Longrightarrow>
   (st = STAT_OK \<longrightarrow> k = length as) \<and> (st \<noteq> STAT_OK \<longrightarrow> k < length as)"
proof (induction as arbitrary: w st k w')
  case Nil
  then show ?case by simp
next
  case (Cons a as)
  obtain s1 w1 where c: "call (fst a) (snd a) w = (s1, w1)"
    by (cases "call (fst a) (snd a) w")
  show ?case
  proof (cases "s1 = STAT_OK")
    case True
    obtain s2 k2 w2 where e: "exec_actions call as w1 = (s2, k2, w2)"
      by (cases "exec_actions call as w1")
    from Cons.prems c True e have "st = s2" "k = Suc k2"
      by simp_all
    with Cons.IH [OF e] show ?thesis by simp
  next
    case False
    with Cons.prems c show ?thesis by simp
  qed
qed

text \<open>With a call that only records its arguments, the record is the queued list.\<close>

lemma exec_actions_record:
  "exec_actions (\<lambda>f p w. (STAT_OK, w @ [(f, p)])) as w = (STAT_OK, length as, w @ as)"
  by (induction as arbitrary: w) simp_all


lemma add_actions_params:
  assumes "linked opr" "\<not> in_operation opr"
    and "add opr = (if k < ACTION_MAX then Some k else None)"
    and "k + length xs \<le> ACTION_MAX"
  shows "\<forall>i < ACTION_MAX. param (action (snd (add_actions xs opr)) ! i) =
           (if k \<le> i \<and> i < k + length xs then
              (case snd (xs ! (i - k)) of
                 None \<Rightarrow> param (action opr ! i)
               | Some p \<Rightarrow> map (\<lambda>j. p ! j) [0..<PARAM_MAX])
            else param (action opr ! i))"
  using assms
proof (induction xs arbitrary: opr k)
  case Nil
  then show ?case by auto
next
  case (Cons x xs)
  from Cons.prems have k: "k < ACTION_MAX" and ad: "add opr = Some k" by auto
  define o' where "o' = snd (add_action (fst x) (snd x) opr)"
  have o: "o' = opr\<lparr>action := (action opr)[k := (action opr ! k)
              \<lparr>func := Some (fst x),
               param := (case snd x of None \<Rightarrow> param (action opr ! k)
                         | Some p \<Rightarrow> map (\<lambda>k. p ! k) [0..<PARAM_MAX])\<rparr>],
         add := nx (action opr ! k)\<rparr>"
    using Cons.prems(2) ad by (simp add: o'_def add_action_ok)
  have eq: "add_action (fst x) (snd x) opr = (STAT_OK, o')"
    using Cons.prems(2) ad by (simp add: o add_action_ok)
  have len: "length (action opr) = ACTION_MAX"
    using Cons.prems(1) by (simp add: linked_def)
  have l: "linked o'"
    using Cons.prems(1) k by (auto simp add: o linked_def nth_list_update)
  have r: "\<not> in_operation o'"
    using Cons.prems(2) by (simp add: o)
  have a: "add o' = (if Suc k < ACTION_MAX then Some (Suc k) else None)"
    using Cons.prems(1) k by (simp add: o linked_def)
  have b: "Suc k + length xs \<le> ACTION_MAX"
    using Cons.prems(4) by simp
  note ih = Cons.IH [OF l r a b]
  have pm: "param (action o' ! i) =
      (if i = k then (case snd x of None \<Rightarrow> param (action opr ! k)
                      | Some p \<Rightarrow> map (\<lambda>j. p ! j) [0..<PARAM_MAX])
       else param (action opr ! i))"
    if "i < ACTION_MAX" for i
    using that len k by (simp add: o nth_list_update)
  have unf: "snd (add_actions (x # xs) opr) = snd (add_actions xs o')"
    by (simp add: eq split: prod.split)
  show ?case
  proof (intro allI impI)
    fix i assume i: "i < ACTION_MAX"
    have h: "param (action (snd (add_actions xs o')) ! i) =
           (if Suc k \<le> i \<and> i < Suc k + length xs then
              (case snd (xs ! (i - Suc k)) of
                 None \<Rightarrow> param (action o' ! i)
               | Some p \<Rightarrow> map (\<lambda>j. p ! j) [0..<PARAM_MAX])
            else param (action o' ! i))"
      using ih i by blast
    show "param (action (snd (add_actions (x # xs) opr)) ! i) =
           (if k \<le> i \<and> i < k + length (x # xs) then
              (case snd ((x # xs) ! (i - k)) of
                 None \<Rightarrow> param (action opr ! i)
               | Some p \<Rightarrow> map (\<lambda>j. p ! j) [0..<PARAM_MAX])
            else param (action opr ! i))"
    proof (cases "i = k")
      case True
      then show ?thesis
        unfolding unf h pm [OF i] by (simp split: option.split)
    next
      case False
      show ?thesis
      proof (cases "Suc k \<le> i")
        case True
        then have "(x # xs) ! (i - k) = xs ! (i - Suc k)"
          by (simp add: nth_Cons' Suc_diff_le)
        then show ?thesis
          unfolding unf h pm [OF i] using True False by (simp split: option.split)
      next
        case False
        with \<open>i \<noteq> k\<close> have "i < k" by simp
        then show ?thesis
          unfolding unf h pm [OF i] by simp
      qed
    qed
  qed
qed

text \<open>
  The contract of \<open>run_operation\<close> for the actions queued since \<open>reset\<close>: they are called
  in enqueue order with the parameters stored for them, as long as they return \<open>STAT_OK\<close>.
  When all have returned \<open>STAT_OK\<close> the runner is reset and the status is \<open>STAT_OK\<close>,
  unless all twelve slots were queued. On \<open>STAT_EAGAIN\<close> the run cursor stays at the action
  that returned it, and the slots are as before. On any other status the runner is reset and
  the status returned.
\<close>

lemma run_operation_enqueue_order:
  assumes "xs \<noteq> []" "length xs \<le> ACTION_MAX"
  shows "run_operation call (snd (add_actions xs (cmOperation_reset opr0))) w =
     (case exec_actions call
             (map (\<lambda>i. (fst (xs ! i),
                        case snd (xs ! i) of
                          None \<Rightarrow> param (action opr0 ! i)
                        | Some p \<Rightarrow> map (\<lambda>j. p ! j) [0..<PARAM_MAX]))
                [0..<length xs]) w of
        (st, k, w') \<Rightarrow>
          if st = STAT_OK then
            (if length xs < ACTION_MAX
             then Some (STAT_OK, cmOperation_reset (snd (add_actions xs (cmOperation_reset opr0))), w')
             else None)
          else if st = STAT_EAGAIN then
            Some (STAT_EAGAIN,
                  (snd (add_actions xs (cmOperation_reset opr0)))\<lparr>in_operation := True, run := Some k\<rparr>,
                  w')
          else Some (st, cmOperation_reset (snd (add_actions xs (cmOperation_reset opr0))), w'))"
proof -
  let ?r = "cmOperation_reset opr0"
  let ?o = "snd (add_actions xs ?r)"
  obtain n where n: "length xs = Suc n"
    using assms(1) by (cases xs) simp_all
  have i: "idle ?r" by (rule reset_idle)
  then have p: "linked ?r" "\<not> in_operation ?r"
    "add ?r = (if 0 < ACTION_MAX then Some 0 else None)"
    by (simp_all add: idle_def ACTION_MAX_def)
  have l: "0 + length xs \<le> ACTION_MAX" using assms(2) by simp
  note fl = add_actions_filled [OF p l]
  note pa = add_actions_params [OF p l]
  have lk: "linked ?o" and rn: "run ?o = Some 0"
    using fl i by (simp_all add: idle_def)
  have fn: "func (action ?o ! j) = Some (fst (xs ! j))" if "j < length xs" for j
    using fl that assms(2) by simp
  have fe: "func (action ?o ! length xs) = None" if "length xs < ACTION_MAX"
    using fl that i by (simp add: idle_def)
  have pm: "param (action ?o ! j) =
      (case snd (xs ! j) of None \<Rightarrow> param (action opr0 ! j)
       | Some p \<Rightarrow> map (\<lambda>j. p ! j) [0..<PARAM_MAX])" if "j < length xs" for j
  proof -
    have "j < ACTION_MAX" using that assms(2) by simp
    then show ?thesis
      using pa that by (simp add: reset_param split: option.split)
  qed
  have q: "queued ?o 0 (Suc n) =
      map (\<lambda>i. (fst (xs ! i),
                 case snd (xs ! i) of
                   None \<Rightarrow> param (action opr0 ! i)
                 | Some p \<Rightarrow> map (\<lambda>j. p ! j) [0..<PARAM_MAX]))
        [0..<length xs]"
    unfolding queued_def n [symmetric]
    by (rule map_cong) (simp_all add: fn pm)
  have a: "0 + Suc n \<le> ACTION_MAX" using assms(2) n by simp
  have b: "\<forall>i < Suc n. func (action ?o ! (0 + i)) \<noteq> None"
    using fn n by simp
  have c: "0 + Suc n < ACTION_MAX \<longrightarrow> func (action ?o ! (0 + Suc n)) = None"
    using fe n by simp
  show ?thesis
    unfolding run_operation_queued [OF lk rn a b c, of call w] q
    by (simp add: n split: prod.split)
qed

subsection \<open>A full action list\<close>

text \<open>
  C1, at a full action list: twelve \<open>add_action\<close> calls are accepted; when all twelve
  actions return \<open>STAT_OK\<close>, \<open>run_operation\<close> follows the \<open>NULL\<close> link of the last
  slot and reads \<open>run->func\<close> through it, and returns no status. With eleven actions it
  returns \<open>STAT_OK\<close>. Six feedhold requests of type sync and final stop while the machine
  is in motion fill the list, and the next tick of the sequencing callback returns no status.
\<close>

theorem run_operation_full_list:
  "fst (add_actions (replicate 12 (Fn_feedhold_with_sync, None)) cm_operation_init)
      = replicate 12 STAT_OK
   \<and> run_operation (call_action u0)
        (snd (add_actions (replicate 12 (Fn_feedhold_with_sync, None)) cm_operation_init)) w0
      = None
   \<and> map_option fst (run_operation (call_action u0)
        (snd (add_actions (replicate 11 (Fn_feedhold_with_sync, None)) cm_operation_init)) w0)
      = Some STAT_OK
   \<and> cm_operation_sequencing_callback u0
        (cm_request_feedhold FEEDHOLD_TYPE_SYNC FEEDHOLD_FINAL_STOP
          (cm_request_feedhold FEEDHOLD_TYPE_SYNC FEEDHOLD_FINAL_STOP
            (cm_request_feedhold FEEDHOLD_TYPE_SYNC FEEDHOLD_FINAL_STOP
              (cm_request_feedhold FEEDHOLD_TYPE_SYNC FEEDHOLD_FINAL_STOP
                (cm_request_feedhold FEEDHOLD_TYPE_SYNC FEEDHOLD_FINAL_STOP
                  (cm_request_feedhold FEEDHOLD_TYPE_SYNC FEEDHOLD_FINAL_STOP s0))))))
      = None"
  by code_simp

end
